theory Spec2Isabelle
  imports Main "HOL-Library.AList"
begin

section \<open>Data model\<close>

text \<open>
  Objects of the store are mutable and compared by reference (\<^verbatim>\<open>===\<close>), so every
  object lives in a table indexed by its reference and a reference is the index at
  which the object was allocated. Allocation takes the next free index.
\<close>

type_synonym ref = nat

text \<open>
  \<^verbatim>\<open>StableRecordIdentifier\<close>: \<^verbatim>\<open>{ type: string, id: string | null, lid: string }\<close>.
  \<open>None\<close> is \<^verbatim>\<open>null\<close>.
\<close>

record stableIdentifier =
  itype :: string
  iid :: "string option"
  ilid :: string

text \<open>
  The \<^verbatim>\<open>id\<close> member of a pushed resource as JavaScript sees it: the checks of
  \<^verbatim>\<open>_load\<close> tell \<^verbatim>\<open>undefined\<close>, \<^verbatim>\<open>null\<close> and strings apart.
\<close>

datatype idval = IdUndefined | IdNull | IdStr string

text \<open>
  \<^verbatim>\<open>ExistingResourceObject\<close>, the argument of \<^verbatim>\<open>_load\<close>. \<open>r_id = None\<close> says that the
  object has no \<^verbatim>\<open>id\<close> key at all (\<^verbatim>\<open>'id' in data\<close> is false); reading the member
  then gives \<^verbatim>\<open>undefined\<close>.
\<close>

record resourceObject =
  r_type :: string
  r_id :: "idval option"
  r_lid :: "string option"
  r_attributes :: "(string \<times> string) list"

text \<open>
  \<^verbatim>\<open>ResourceIdentifierObject\<close>, what the identifier cache is asked about: a type, an
  \<^verbatim>\<open>id\<close> or \<^verbatim>\<open>null\<close>, and possibly a \<^verbatim>\<open>lid\<close>.
\<close>

record resourceIdentifier =
  ri_type :: string
  ri_id :: "string option"
  ri_lid :: "string option"

text \<open>
  \<^verbatim>\<open>ResourceData\<close>, the third argument of the merge callback: every key may be
  missing, and the callback asks \<^verbatim>\<open>'id' in resourceData\<close> and \<^verbatim>\<open>'type' in resourceData\<close>.
\<close>

record resourceData =
  d_type :: "string option"
  d_id :: "idval option"
  d_lid :: "string option"

text \<open>The object pushed to \<^verbatim>\<open>_load\<close> as the merge callback receives it.\<close>

definition dataOf :: "resourceObject \<Rightarrow> resourceData" where
  "dataOf r = \<lparr>d_type = Some (r_type r), d_id = r_id r, d_lid = r_lid r\<rparr>"

text \<open>Reading \<^verbatim>\<open>data.id\<close>: a missing key reads as \<^verbatim>\<open>undefined\<close>.\<close>

definition readId :: "idval option \<Rightarrow> idval" where
  "readId v = (case v of None \<Rightarrow> IdUndefined | Some x \<Rightarrow> x)"

text \<open>The \<^verbatim>\<open>id\<close> of an identifier (\<^verbatim>\<open>string | null\<close>) as a JavaScript value.\<close>

definition idvalOf :: "string option \<Rightarrow> idval" where
  "idvalOf i = (case i of None \<Rightarrow> IdNull | Some s \<Rightarrow> IdStr s)"

text \<open>
  Modelled from the spec: \<^verbatim>\<open>InternalModel\<close> (\<^verbatim>\<open>model/internal-model\<close> is not among the
  sources), the Record Cache Entry of the specification. The fields are the
  observations the factory and the store make of it: the back-reference to its
  identifier, \<^verbatim>\<open>modelName\<close> (the type it was created for), \<^verbatim>\<open>_id\<close>, \<^verbatim>\<open>hasRecord\<close>,
  the flags \<^verbatim>\<open>isEmpty\<close>, \<^verbatim>\<open>isLoading\<close> and \<^verbatim>\<open>isLoaded\<close> of its state, whether a
  destroy is scheduled, whether it has been destroyed, and the data handed to
  \<^verbatim>\<open>setupData\<close> (latest first).
\<close>

record internalModel =
  im_identifier :: ref
  modelName :: string
  im_id :: "string option"
  hasRecord :: bool
  isEmpty :: bool
  isLoading :: bool
  isLoaded :: bool
  scheduledDestroy :: bool
  isDestroyed :: bool
  pushedData :: "resourceObject list"

text \<open>
  Errors are values. \<^verbatim>\<open>assert\<close> of \<^verbatim>\<open>@ember/debug\<close> throws when its condition is
  falsy; each constructor carries what the message of the source interpolates.
\<close>

datatype error =
    MissingId string
  | UnknownType string
  | IdInUse stableIdentifier idval stableIdentifier
  | MergeDuplicate stableIdentifier stableIdentifier
  | IdAlreadyUsed string string
  | IdCollision string string
  | ExpectedObject
  | NoBelongsToNamed string
  | NoHasManyNamed string
  | RecordDataPackageMissing
  | RelationshipNotFound string
  | RelationshipIsHasMany string
  | RelationshipIsBelongsTo string
  | TypeError

text \<open>
  The store. Identifiers and internal models are tables of objects with an allocation
  counter each.

  Modelled from the spec: the lookup tables of the \<^verbatim>\<open>IdentifierCache\<close>
  (\<^verbatim>\<open>identifiers/cache\<close> is not among the sources): \<open>lids\<close> finds the identifier on file
  for a \<^verbatim>\<open>lid\<close>, \<open>ids\<close> the one on file for a \<^verbatim>\<open>(type, id)\<close> pair.

  Modelled from the spec: \<^verbatim>\<open>IdentityMap\<close> and \<^verbatim>\<open>InternalModelMap\<close> (not among the
  sources). \<^verbatim>\<open>modelMapFor(type).get(lid)\<close> is \<open>identityMap st (type, lid)\<close>:
  one map per type, keyed by \<^verbatim>\<open>lid\<close>, \<open>None\<close> for \<^verbatim>\<open>null\<close>.

  \<open>typeExists\<close> is \<^verbatim>\<open>getSchemaDefinitionService().doesTypeExist\<close>, \<open>normalizeModelName\<close>
  the helper of that name (not among the sources), \<open>generateLid n\<close> the \<^verbatim>\<open>lid\<close> the
  cache gives to the identifier it allocates at reference \<open>n\<close> when the resource
  brings none, and \<open>changedRecords\<close> the identifiers handed to
  \<^verbatim>\<open>recordArrayManager.recordDidChange\<close> (latest first).
\<close>

record store =
  identifiers :: "ref \<Rightarrow> stableIdentifier"
  nextIdentifier :: nat
  lids :: "string \<rightharpoonup> ref"
  ids :: "string \<times> string \<rightharpoonup> ref"
  models :: "ref \<Rightarrow> internalModel"
  nextModel :: nat
  identityMap :: "string \<times> string \<rightharpoonup> ref"
  typeExists :: "string \<Rightarrow> bool"
  normalizeModelName :: "string \<Rightarrow> string"
  generateLid :: "nat \<Rightarrow> string"
  changedRecords :: "ref list"

section \<open>The identity map\<close>

text \<open>
  Modelled from the spec: \<^verbatim>\<open>get\<close>, \<^verbatim>\<open>add\<close> and \<^verbatim>\<open>remove\<close> of the
  \<^verbatim>\<open>InternalModelMap\<close> that \<^verbatim>\<open>modelMapFor(type)\<close> returns (\<^verbatim>\<open>internal-model-map\<close> and
  \<^verbatim>\<open>identity-map\<close> are not among the sources): the mapping from the \<^verbatim>\<open>lid\<close> of an
  identifier to its Record Cache Entry, one per type.
\<close>

definition mapGet :: "store \<Rightarrow> string \<Rightarrow> string \<Rightarrow> ref option" where
  "mapGet st type lid = identityMap st (type, lid)"

definition mapAdd :: "store \<Rightarrow> string \<Rightarrow> ref \<Rightarrow> string \<Rightarrow> store" where
  "mapAdd st type im lid = st\<lparr>identityMap := (identityMap st)((type, lid) \<mapsto> im)\<rparr>"

definition mapRemove :: "store \<Rightarrow> string \<Rightarrow> ref \<Rightarrow> string \<Rightarrow> store" where
  "mapRemove st type im lid = st\<lparr>identityMap := (identityMap st)((type, lid) := None)\<rparr>"

section \<open>The merge callback of \<^verbatim>\<open>InternalModelFactory\<close>\<close>

text \<open>
  \<^verbatim>\<open>internal-model-factory.ts\<close>, the function given to \<^verbatim>\<open>__configureMerge\<close>. Its first
  lines choose the intended identifier and the alternate.
\<close>

definition intendedIdentifier :: "store \<Rightarrow> ref \<Rightarrow> ref \<Rightarrow> resourceData \<Rightarrow> ref" where
  "intendedIdentifier st identifier matchedIdentifier resourceData =
     (let i = identifiers st identifier; m = identifiers st matchedIdentifier in
      if iid i \<noteq> iid m then
        (if d_id resourceData \<noteq> None \<and> idvalOf (iid i) = readId (d_id resourceData)
         then identifier else matchedIdentifier)
      else if itype i \<noteq> itype m then
        (if d_type resourceData \<noteq> None \<and> Some (itype i) = d_type resourceData
         then identifier else matchedIdentifier)
      else identifier)"

definition altIdentifier :: "store \<Rightarrow> ref \<Rightarrow> ref \<Rightarrow> resourceData \<Rightarrow> ref" where
  "altIdentifier st identifier matchedIdentifier resourceData =
     (if identifier = intendedIdentifier st identifier matchedIdentifier resourceData
      then matchedIdentifier else identifier)"

text \<open>
  The rest of the callback. \<open>im\<close> and \<open>otherIm\<close> are both looked up in the map of
  \<^verbatim>\<open>identifier.type\<close>. The conflict branch throws (an \<^verbatim>\<open>Error\<close> when the data has an
  \<^verbatim>\<open>id\<close> key, the failing \<^verbatim>\<open>assert\<close> otherwise) before anything is written.
\<close>

definition mergeSurvivor :: "store \<Rightarrow> ref option \<Rightarrow> ref option \<Rightarrow> bool" where
  "mergeSurvivor st im otherIm =
     (case (im, otherIm) of
        (None, Some other) \<Rightarrow> True
      | (Some i, Some other) \<Rightarrow> \<not> hasRecord (models st i) \<and> hasRecord (models st other)
      | _ \<Rightarrow> False)"

definition mergeCallback ::
  "store \<Rightarrow> ref \<Rightarrow> ref \<Rightarrow> resourceData \<Rightarrow> (error + ref) \<times> store" where
  "mergeCallback st identifier matchedIdentifier resourceData =
     (let intended = intendedIdentifier st identifier matchedIdentifier resourceData;
          alt = altIdentifier st identifier matchedIdentifier resourceData;
          type = itype (identifiers st identifier);
          intendedLid = ilid (identifiers st intended);
          altLid = ilid (identifiers st alt);
          im = mapGet st type intendedLid;
          otherIm = mapGet st type altLid
      in
        if (case (im, otherIm) of
              (Some i, Some other) \<Rightarrow> hasRecord (models st i) \<and> hasRecord (models st other)
            | _ \<Rightarrow> False)
        then
          (if d_id resourceData \<noteq> None
           then (Inl (IdInUse (identifiers st identifier) (readId (d_id resourceData))
                        (identifiers st matchedIdentifier)), st)
           else (Inl (MergeDuplicate (identifiers st identifier)
                        (identifiers st matchedIdentifier)), st))
        else
          let st1 = (case otherIm of Some other \<Rightarrow> mapRemove st type other altLid | None \<Rightarrow> st)
          in
            if im = None \<and> otherIm = None then (Inr intended, st1)
            else if mergeSurvivor st im otherIm then
              (let st2 = (case im of Some i \<Rightarrow> mapRemove st1 type i intendedLid | None \<Rightarrow> st1);
                   other = the otherIm;
                   st3 = st2\<lparr>models := (models st2)
                           (other := (models st2 other)\<lparr>im_id := iid (identifiers st intended)\<rparr>)\<rparr>
               in (Inr intended, mapAdd st3 type other intendedLid))
            else (Inr intended, st1))"

section \<open>The identifier cache\<close>

text \<open>
  Modelled from the spec: the operations of the \<^verbatim>\<open>IdentifierCache\<close> (section 4.1 of
  the specification; \<^verbatim>\<open>identifiers/cache\<close> is not among the sources).

  \<^verbatim>\<open>peekIdentifier\<close>: the identifier on file for the \<^verbatim>\<open>lid\<close>, else the one on file for
  the \<^verbatim>\<open>(type, id)\<close> pair, else none.
\<close>

definition peekRecordIdentifier :: "store \<Rightarrow> resourceIdentifier \<Rightarrow> ref option" where
  "peekRecordIdentifier st resource =
     (case (case ri_lid resource of Some l \<Rightarrow> lids st l | None \<Rightarrow> None) of
        Some r \<Rightarrow> Some r
      | None \<Rightarrow>
          (case ri_id resource of
             Some i \<Rightarrow> ids st (ri_type resource, i)
           | None \<Rightarrow> None))"

text \<open>
  Modelled from the spec: how the cache makes a new identifier. It takes the next reference, is filed
  under its \<^verbatim>\<open>lid\<close> and, when it has an \<^verbatim>\<open>id\<close>, under its \<^verbatim>\<open>(type, id)\<close> pair.
\<close>

definition registerIdentifier ::
  "store \<Rightarrow> string \<Rightarrow> string option \<Rightarrow> string option \<Rightarrow> ref \<times> store" where
  "registerIdentifier st type rid lid =
     (let r = nextIdentifier st;
          l = (case lid of Some l \<Rightarrow> l | None \<Rightarrow> generateLid st r);
          st1 = st\<lparr>identifiers := (identifiers st)(r := \<lparr>itype = type, iid = rid, ilid = l\<rparr>),
                   nextIdentifier := Suc r,
                   lids := (lids st)(l \<mapsto> r)\<rparr>
      in (r, (case rid of
                Some i \<Rightarrow> st1\<lparr>ids := (ids st1)((type, i) \<mapsto> r)\<rparr>
              | None \<Rightarrow> st1)))"

text \<open>
  Modelled from the spec: \<^verbatim>\<open>getOrCreateIdentifier\<close>, the identifier \<^verbatim>\<open>peekIdentifier\<close> finds, else a new one.
\<close>

definition getOrCreateRecordIdentifier :: "store \<Rightarrow> resourceIdentifier \<Rightarrow> ref \<times> store" where
  "getOrCreateRecordIdentifier st resource =
     (case peekRecordIdentifier st resource of
        Some r \<Rightarrow> (r, st)
      | None \<Rightarrow> registerIdentifier st (ri_type resource) (ri_id resource) (ri_lid resource))"

text \<open>
  Modelled from the spec: \<^verbatim>\<open>createIdentifierForNewRecord\<close>, always a fresh identifier; it fails when a non-null
  \<^verbatim>\<open>id\<close> collides with a registered identifier.
\<close>

definition createIdentifierForNewRecord ::
  "store \<Rightarrow> string \<Rightarrow> string option \<Rightarrow> (error + ref) \<times> store" where
  "createIdentifierForNewRecord st type rid =
     (if (case rid of Some i \<Rightarrow> ids st (type, i) \<noteq> None | None \<Rightarrow> False)
      then (Inl (IdCollision type (the rid)), st)
      else (case registerIdentifier st type rid None of (r, st1) \<Rightarrow> (Inr r, st1)))"

text \<open>
  Modelled from the spec: \<^verbatim>\<open>forgetIdentifier\<close>, the identifier leaves both lookup tables; the object itself
  stays where it is, so references already held still read its fields.
\<close>

definition forgetRecordIdentifier :: "store \<Rightarrow> ref \<Rightarrow> store" where
  "forgetRecordIdentifier st identifier =
     st\<lparr>lids := (\<lambda>l. if lids st l = Some identifier then None else lids st l),
        ids := (\<lambda>k. if ids st k = Some identifier then None else ids st k)\<rparr>"

text \<open>
  Modelled from the spec: the in-place update of an identifier's \<^verbatim>\<open>type\<close> and \<^verbatim>\<open>id\<close>; the \<^verbatim>\<open>(type, id)\<close> table
  follows.
\<close>

definition performRecordIdentifierUpdate ::
  "store \<Rightarrow> ref \<Rightarrow> string \<Rightarrow> string option \<Rightarrow> store" where
  "performRecordIdentifierUpdate st identifier newType newId =
     (let i = identifiers st identifier;
          cleared = (\<lambda>k. if ids st k = Some identifier then None else ids st k);
          st1 = st\<lparr>identifiers := (identifiers st)(identifier := i\<lparr>itype := newType, iid := newId\<rparr>)\<rparr>
      in (case newId of
            Some n \<Rightarrow> st1\<lparr>ids := cleared((newType, n) \<mapsto> identifier)\<rparr>
          | None \<Rightarrow> st1\<lparr>ids := cleared\<rparr>))"

text \<open>
  Modelled from the spec: \<^verbatim>\<open>updateIdentifier(identifier, newData)\<close>, the type and the id the data reveals are
  written to the identifier. When another registered identifier already stands for
  that \<^verbatim>\<open>(type, id)\<close>, the merge protocol runs first: the configured merge callback
  names the identifier to keep, the other one is forgotten, and the kept one is
  updated and returned.
\<close>

definition stringId :: "idval option \<Rightarrow> string option" where
  "stringId v = (case readId v of IdStr s \<Rightarrow> Some s | _ \<Rightarrow> None)"

definition updateRecordIdentifier ::
  "store \<Rightarrow> ref \<Rightarrow> resourceData \<Rightarrow> (error + ref) \<times> store" where
  "updateRecordIdentifier st identifier newData =
     (let i = identifiers st identifier;
          newType = (case d_type newData of Some t \<Rightarrow> t | None \<Rightarrow> itype i);
          newId = (case stringId (d_id newData) of Some n \<Rightarrow> Some n | None \<Rightarrow> iid i);
          existing = (case newId of Some n \<Rightarrow> ids st (newType, n) | None \<Rightarrow> None)
      in
        case existing of
          None \<Rightarrow> (Inr identifier, performRecordIdentifierUpdate st identifier newType newId)
        | Some matched \<Rightarrow>
            if matched = identifier
            then (Inr identifier, performRecordIdentifierUpdate st identifier newType newId)
            else
              (case mergeCallback st identifier matched newData of
                 (Inl e, st1) \<Rightarrow> (Inl e, st1)
               | (Inr kept, st1) \<Rightarrow>
                   let abandoned = (if kept = identifier then matched else identifier);
                       st2 = forgetRecordIdentifier st1 abandoned
                   in (Inr kept, performRecordIdentifierUpdate st2 kept newType newId)))"

section \<open>Operations of an internal model\<close>

text \<open>
  Modelled from the spec: the operations of \<^verbatim>\<open>InternalModel\<close> the factory and the store
  call (section 4.3 of the specification; \<^verbatim>\<open>model/internal-model\<close> is not among the
  sources). A new entry is empty and has no record.
\<close>

definition newInternalModel :: "store \<Rightarrow> ref \<Rightarrow> ref \<times> store" where
  "newInternalModel st identifier =
     (let r = nextModel st;
          i = identifiers st identifier
      in (r, st\<lparr>models := (models st)
                   (r := \<lparr>im_identifier = identifier, modelName = itype i, im_id = iid i,
                          hasRecord = False, isEmpty = True, isLoading = False, isLoaded = False,
                          scheduledDestroy = False, isDestroyed = False, pushedData = []\<rparr>),
                nextModel := Suc r\<rparr>))"

text \<open>
  Modelled from the spec: \<^verbatim>\<open>hasScheduledDestroy\<close> and \<^verbatim>\<open>cancelDestroy\<close> of
  \<^verbatim>\<open>InternalModel\<close>, reading and dropping the scheduled teardown.
\<close>

definition hasScheduledDestroy :: "store \<Rightarrow> ref \<Rightarrow> bool" where
  "hasScheduledDestroy st im = scheduledDestroy (models st im)"

definition cancelDestroy :: "store \<Rightarrow> ref \<Rightarrow> store" where
  "cancelDestroy st im = st\<lparr>models := (models st)(im := (models st im)\<lparr>scheduledDestroy := False\<rparr>)\<rparr>"

text \<open>
  Modelled from the spec: \<^verbatim>\<open>setupData\<close> of \<^verbatim>\<open>InternalModel\<close>, which records the pushed
  data and leaves the entry loaded.
\<close>

definition setupData :: "store \<Rightarrow> ref \<Rightarrow> resourceObject \<Rightarrow> store" where
  "setupData st im data =
     st\<lparr>models := (models st)
          (im := (models st im)\<lparr>isEmpty := False, isLoading := False, isLoaded := True,
                                pushedData := data # pushedData (models st im)\<rparr>)\<rparr>"

section \<open>\<^verbatim>\<open>InternalModelFactory\<close>\<close>

text \<open>\<^verbatim>\<open>peek\<close>: the entry filed under the identifier's \<^verbatim>\<open>lid\<close> in the map of its type.\<close>

definition peek :: "store \<Rightarrow> ref \<Rightarrow> ref option" where
  "peek st identifier =
     mapGet st (itype (identifiers st identifier)) (ilid (identifiers st identifier))"

text \<open>
  \<^verbatim>\<open>remove\<close>: the entry leaves the map of its \<^verbatim>\<open>modelName\<close> and its identifier is
  forgotten.
\<close>

definition remove_im :: "store \<Rightarrow> ref \<Rightarrow> store" where
  "remove_im st internalModel =
     (let clientId = ilid (identifiers st (im_identifier (models st internalModel)));
          st1 = mapRemove st (modelName (models st internalModel)) internalModel clientId
      in forgetRecordIdentifier st1 (im_identifier (models st internalModel)))"

text \<open>
  Modelled from the spec: \<^verbatim>\<open>InternalModel.destroySync\<close> (not among the sources), the
  teardown executed at once: the scheduled destroy is over, the entry is destroyed,
  and it leaves the cache through \<^verbatim>\<open>InternalModelFactory.remove\<close>.
\<close>

definition destroySync :: "store \<Rightarrow> ref \<Rightarrow> store" where
  "destroySync st im =
     remove_im
       (st\<lparr>models := (models st)
            (im := (models st im)\<lparr>scheduledDestroy := False, isDestroyed := True\<rparr>)\<rparr>) im"

text \<open>
  \<^verbatim>\<open>peekById\<close>. An entry with a scheduled destroy is destroyed synchronously and
  \<^verbatim>\<open>null\<close> is returned.
\<close>

definition peekById :: "store \<Rightarrow> string \<Rightarrow> string \<Rightarrow> ref option \<times> store" where
  "peekById st type rid =
     (let identifier = peekRecordIdentifier st \<lparr>ri_type = type, ri_id = Some rid, ri_lid = None\<rparr>;
          internalModel =
            (case identifier of
               Some i \<Rightarrow> mapGet st type (ilid (identifiers st i))
             | None \<Rightarrow> None)
      in case internalModel of
           Some im \<Rightarrow>
             if hasScheduledDestroy st im then (None, destroySync st im) else (Some im, st)
         | None \<Rightarrow> (None, st))"

text \<open>
  \<^verbatim>\<open>_build\<close> has two call shapes: \<^verbatim>\<open>_build(identifier, false)\<close> and
  \<^verbatim>\<open>_build({ type, id }, true)\<close>; the constructor says which. In JavaScript
  \<^verbatim>\<open>resource.id\<close> is truthy for a non-empty string.
\<close>

datatype buildResource = Stable ref | NewResourceInfo string "string option"

definition priv_build :: "store \<Rightarrow> buildResource \<Rightarrow> (error + ref) \<times> store" where
  "priv_build st resource =
     (case resource of
        Stable identifier \<Rightarrow>
          (case newInternalModel st identifier of
             (internalModel, st1) \<Rightarrow>
               (Inr internalModel,
                mapAdd st1 (itype (identifiers st identifier)) internalModel
                  (ilid (identifiers st identifier))))
      | NewResourceInfo type rid \<Rightarrow>
          (case (case rid of
                   Some i \<Rightarrow> if i \<noteq> [] then peekById st type i else (None, st)
                 | None \<Rightarrow> (None, st)) of
             (Some existingInternalModel, st1) \<Rightarrow> (Inl (IdAlreadyUsed (the rid) type), st1)
           | (None, st1) \<Rightarrow>
               (case createIdentifierForNewRecord st1 type rid of
                  (Inl e, st2) \<Rightarrow> (Inl e, st2)
                | (Inr identifier, st2) \<Rightarrow>
                    (case newInternalModel st2 identifier of
                       (internalModel, st3) \<Rightarrow>
                         (Inr internalModel,
                          mapAdd st3 type internalModel (ilid (identifiers st3 identifier)))))))"

definition build :: "store \<Rightarrow> string \<Rightarrow> string option \<Rightarrow> (error + ref) \<times> store" where
  "build st type rid = priv_build st (NewResourceInfo type rid)"

text \<open>
  \<^verbatim>\<open>lookup(resource, data?)\<close>. With data, the cache sees the data first. An entry found
  with a scheduled destroy has the destroy cancelled and is returned; an entry is
  built only when none is found.
\<close>

definition lookup ::
  "store \<Rightarrow> resourceIdentifier \<Rightarrow> resourceIdentifier option \<Rightarrow> (error + ref) \<times> store" where
  "lookup st resource data =
     (let st1 = (case data of Some d \<Rightarrow> snd (getOrCreateRecordIdentifier st d) | None \<Rightarrow> st)
      in case getOrCreateRecordIdentifier st1 resource of
           (identifier, st2) \<Rightarrow>
             (case peek st2 identifier of
                Some internalModel \<Rightarrow>
                  if hasScheduledDestroy st2 internalModel
                  then (Inr internalModel, cancelDestroy st2 internalModel)
                  else (Inr internalModel, st2)
              | None \<Rightarrow> priv_build st2 (Stable identifier)))"

text \<open>An identifier handed to \<^verbatim>\<open>lookup\<close> as the resource: its three fields.\<close>

definition resourceOfIdentifier :: "store \<Rightarrow> ref \<Rightarrow> resourceIdentifier" where
  "resourceOfIdentifier st identifier =
     \<lparr>ri_type = itype (identifiers st identifier), ri_id = iid (identifiers st identifier),
      ri_lid = Some (ilid (identifiers st identifier))\<rparr>"

section \<open>Loading data: \<^verbatim>\<open>_load\<close> and \<^verbatim>\<open>_push\<close> of the store\<close>

text \<open>
  The first assertion of \<^verbatim>\<open>_load\<close>:
  \<^verbatim>\<open>data.id !== null && data.id !== undefined && data.id !== ''\<close>.
\<close>

definition idMissing :: "idval option \<Rightarrow> bool" where
  "idMissing v = (readId v = IdNull \<or> readId v = IdUndefined \<or> readId v = IdStr [])"

text \<open>\<^verbatim>\<open>doesTypeExist\<close> of the schema definition service normalizes the name first.\<close>

definition doesTypeExist :: "store \<Rightarrow> string \<Rightarrow> bool" where
  "doesTypeExist st name = typeExists st (normalizeModelName st name)"

text \<open>The pushed object as the identifier cache reads it in \<^verbatim>\<open>lookup(resource, data)\<close>.\<close>

definition resourceOf :: "resourceObject \<Rightarrow> resourceIdentifier" where
  "resourceOf data = \<lparr>ri_type = r_type data, ri_id = stringId (r_id data), ri_lid = r_lid data\<rparr>"

text \<open>
  The end of \<^verbatim>\<open>_load\<close>: \<^verbatim>\<open>setupData\<close> on the internal model, and
  \<^verbatim>\<open>recordDidChange\<close> unless the load is an update.
\<close>

definition finishLoad :: "store \<Rightarrow> ref \<Rightarrow> ref \<Rightarrow> resourceObject \<Rightarrow> bool \<Rightarrow> (error + ref) \<times> store" where
  "finishLoad st internalModel identifier data isUpdate =
     (let st1 = setupData st internalModel data
      in (Inr identifier,
          if \<not> isUpdate then st1\<lparr>changedRecords := identifier # changedRecords st1\<rparr> else st1))"

text \<open>
  \<^verbatim>\<open>_load\<close> (named \<open>priv_load\<close> here, as a name cannot start with an underscore).
  Both assertions stand before the first access to the caches. A thrown error leaves
  the store as the statements before it made it, so the store is returned with the
  error.
\<close>

definition priv_load :: "store \<Rightarrow> resourceObject \<Rightarrow> (error + ref) \<times> store" where
  "priv_load st data =
     (if idMissing (r_id data) then (Inl (MissingId (r_type data)), st)
      else if \<not> doesTypeExist st (r_type data) then (Inl (UnknownType (r_type data)), st)
      else
        let resource = \<lparr>ri_type = normalizeModelName st (r_type data),
                        ri_id = stringId (r_id data), ri_lid = r_lid data\<rparr>;
            maybeIdentifier = peekRecordIdentifier st resource
        in
          case lookup st resource (Some (resourceOf data)) of
            (Inl e, st1) \<Rightarrow> (Inl e, st1)
          | (Inr internalModel, st1) \<Rightarrow>
              let loading = (isLoading (models st1 internalModel) \<or>
                             (\<not> isLoaded (models st1 internalModel) \<and> maybeIdentifier \<noteq> None));
                  isUpdate = (\<not> isEmpty (models st1 internalModel) \<and> \<not> loading);
                  identifier = im_identifier (models st1 internalModel)
              in
                if isUpdate \<or> loading then
                  (case updateRecordIdentifier st1 identifier (dataOf data) of
                     (Inl e, st2) \<Rightarrow> (Inl e, st2)
                   | (Inr updatedIdentifier, st2) \<Rightarrow>
                       if updatedIdentifier \<noteq> identifier then
                         (case lookup st2 (resourceOfIdentifier st2 updatedIdentifier) None of
                            (Inl e, st3) \<Rightarrow> (Inl e, st3)
                          | (Inr internalModel', st3) \<Rightarrow>
                              finishLoad st3 internalModel' updatedIdentifier data isUpdate)
                       else finishLoad st2 internalModel identifier data isUpdate)
                else finishLoad st1 internalModel identifier data isUpdate)"

text \<open>
  A JSON:API document: \<^verbatim>\<open>included\<close> may be missing; \<^verbatim>\<open>data\<close> is an array, \<^verbatim>\<open>null\<close>,
  an object, or something that is none of them.
\<close>

datatype documentData =
    DataArray "resourceObject list"
  | DataNull
  | DataObject resourceObject
  | DataOther

record jsonApiDocument =
  doc_included :: "resourceObject list option"
  doc_data :: documentData

datatype pushed = PushedNull | PushedOne ref | PushedMany "ref list"

text \<open>The two \<^verbatim>\<open>for\<close> loops of \<^verbatim>\<open>_push\<close>: \<^verbatim>\<open>_load\<close> on each element in order.\<close>

fun loadAll :: "store \<Rightarrow> resourceObject list \<Rightarrow> (error + ref list) \<times> store" where
  "loadAll st [] = (Inr [], st)"
| "loadAll st (x # xs) =
     (case priv_load st x of
        (Inl e, st1) \<Rightarrow> (Inl e, st1)
      | (Inr i, st1) \<Rightarrow>
          (case loadAll st1 xs of
             (Inl e, st2) \<Rightarrow> (Inl e, st2)
           | (Inr is, st2) \<Rightarrow> (Inr (i # is), st2)))"

text \<open>\<^verbatim>\<open>_push\<close>: the included resources first, then the primary data.\<close>

definition priv_push :: "store \<Rightarrow> jsonApiDocument \<Rightarrow> (error + pushed) \<times> store" where
  "priv_push st jsonApiDoc =
     (case (case doc_included jsonApiDoc of
              Some included \<Rightarrow> loadAll st included
            | None \<Rightarrow> (Inr [], st)) of
        (Inl e, st1) \<Rightarrow> (Inl e, st1)
      | (Inr loaded, st1) \<Rightarrow>
          (case doc_data jsonApiDoc of
             DataArray xs \<Rightarrow>
               (case loadAll st1 xs of
                  (Inl e, st2) \<Rightarrow> (Inl e, st2)
                | (Inr loadedData, st2) \<Rightarrow> (Inr (PushedMany loadedData), st2))
           | DataNull \<Rightarrow> (Inr PushedNull, st1)
           | DataOther \<Rightarrow> (Inl ExpectedObject, st1)
           | DataObject d \<Rightarrow>
               (case priv_load st1 d of
                  (Inl e, st2) \<Rightarrow> (Inl e, st2)
                | (Inr identifier, st2) \<Rightarrow> (Inr (PushedOne identifier), st2))))"

text \<open>The resource objects of a document, in the order \<^verbatim>\<open>_push\<close> loads them.\<close>

definition documentResources :: "jsonApiDocument \<Rightarrow> resourceObject list" where
  "documentResources jsonApiDoc =
     (case doc_included jsonApiDoc of Some included \<Rightarrow> included | None \<Rightarrow> []) @
     (case doc_data jsonApiDoc of
        DataArray xs \<Rightarrow> xs
      | DataObject d \<Rightarrow> [d]
      | _ \<Rightarrow> [])"

section \<open>\<^verbatim>\<open>Snapshot\<close>: relationships\<close>

text \<open>
  \<^verbatim>\<open>snapshot.ts\<close>. The collaborators of a snapshot are not among the sources (the
  relationship graph of \<^verbatim>\<open>@ember-data/record-data\<close>, the instance cache, the schema
  of the application), so \<^verbatim>\<open>belongsTo\<close> and \<^verbatim>\<open>hasMany\<close> take them as a parameter: a
  record of functions over whatever state \<open>'s\<close> the store has. Looking an internal
  model up and creating a snapshot may change that state, so it is threaded through.

  A relationship of the graph is a \<^verbatim>\<open>BelongsToRelationship\<close> or a \<^verbatim>\<open>ManyRelationship\<close>;
  \<^verbatim>\<open>getData()\<close> gives a value or nothing, and the \<^verbatim>\<open>data\<close> member of the value is
  \<^verbatim>\<open>undefined\<close>, \<^verbatim>\<open>null\<close> or defined. Of an internal model the snapshot reads
  \<^verbatim>\<open>identifier\<close>, \<^verbatim>\<open>id\<close> and \<^verbatim>\<open>isDeleted()\<close>. \<^verbatim>\<open>relationshipsDefinitionFor\<close> may
  return \<^verbatim>\<open>null\<close> (\<^verbatim>\<open>schema-definition-service.ts\<close>), and indexing \<^verbatim>\<open>null\<close> throws.
\<close>

datatype relationshipKind = BelongsToKind | HasManyKind

datatype 'a member = Undefined | Null | Defined 'a

datatype relationship =
    BelongsToRelationship "resourceIdentifier member option"
  | ManyRelationship "resourceIdentifier list member option"

record internalModelView =
  imv_identifier :: stableIdentifier
  imv_id :: "string option"
  imv_isDeleted :: bool

record 's collaborators =
  hasRecordDataPackage :: bool
  relationshipsDefinitionFor :: "string \<Rightarrow> (string \<rightharpoonup> relationshipKind) option"
  graphGet :: "'s \<Rightarrow> stableIdentifier \<Rightarrow> string \<Rightarrow> relationship option"
  internalModelForResource :: "'s \<Rightarrow> resourceIdentifier \<Rightarrow> internalModelView \<times> 's"
  createSnapshot :: "'s \<Rightarrow> stableIdentifier \<Rightarrow> ref \<times> 's"

datatype belongsToResult = BUndefined | BNull | BId string | BSnapshot ref

datatype hasManyResult = HUndefined | HIds "string option list" | HSnapshots "ref list"

text \<open>
  The fields of a \<^verbatim>\<open>Snapshot\<close>. The four memo dictionaries are created with
  \<^verbatim>\<open>Object.create(null)\<close>; a key may be present with the value \<^verbatim>\<open>undefined\<close>
  (\<open>Some BUndefined\<close>, \<open>Some HUndefined\<close>), which \<^verbatim>\<open>keyName in dict\<close> still finds.
  \<open>attributesRef\<close> is \<^verbatim>\<open>__attributes\<close> (\<open>None\<close> for \<^verbatim>\<open>null\<close>) and
  \<open>changedAttributesRef\<close> is \<^verbatim>\<open>_changedAttributes\<close> (\<open>None\<close> when the constructor left it
  unset): references to objects of the heap below.
\<close>

record snapshot =
  s_identifier :: stableIdentifier
  s_modelName :: string
  belongsToRelationships :: "string \<rightharpoonup> belongsToResult"
  belongsToIds :: "string \<rightharpoonup> belongsToResult"
  hasManyRelationships :: "string \<rightharpoonup> hasManyResult"
  hasManyIds :: "string \<rightharpoonup> hasManyResult"
  attributesRef :: "ref option"
  changedAttributesRef :: "ref option"

definition belongsToValue ::
  "'s collaborators \<Rightarrow> bool \<Rightarrow> resourceIdentifier member option \<Rightarrow> 's \<Rightarrow> belongsToResult \<times> 's" where
  "belongsToValue c returnModeIsId value st =
     (case value of
        None \<Rightarrow> (BUndefined, st)
      | Some Undefined \<Rightarrow> (BUndefined, st)
      | Some Null \<Rightarrow> (BNull, st)
      | Some (Defined data) \<Rightarrow>
          (case internalModelForResource c st data of
             (inverseInternalModel, st1) \<Rightarrow>
               if \<not> imv_isDeleted inverseInternalModel then
                 (if returnModeIsId
                  then (case imv_id inverseInternalModel of
                          None \<Rightarrow> (BNull, st1)
                        | Some i \<Rightarrow> (BId i, st1))
                  else (case createSnapshot c st1 (imv_identifier inverseInternalModel) of
                          (s, st2) \<Rightarrow> (BSnapshot s, st2)))
               else (BNull, st1)))"

definition belongsTo ::
  "'s collaborators \<Rightarrow> snapshot \<Rightarrow> string \<Rightarrow> bool \<Rightarrow> 's \<Rightarrow>
     (error + belongsToResult) \<times> snapshot \<times> 's" where
  "belongsTo c snap keyName returnModeIsId st =
     (if returnModeIsId \<and> belongsToIds snap keyName \<noteq> None
      then (Inr (the (belongsToIds snap keyName)), snap, st)
      else if \<not> returnModeIsId \<and> belongsToRelationships snap keyName \<noteq> None
      then (Inr (the (belongsToRelationships snap keyName)), snap, st)
      else if relationshipsDefinitionFor c (s_modelName snap) = None
      then (Inl TypeError, snap, st)
      else if the (relationshipsDefinitionFor c (s_modelName snap)) keyName \<noteq> Some BelongsToKind
      then (Inl (NoBelongsToNamed keyName), snap, st)
      else if \<not> hasRecordDataPackage c then (Inl RecordDataPackageMissing, snap, st)
      else
        case graphGet c st (s_identifier snap) keyName of
          None \<Rightarrow> (Inl (RelationshipNotFound keyName), snap, st)
        | Some (ManyRelationship v) \<Rightarrow> (Inl (RelationshipIsHasMany keyName), snap, st)
        | Some (BelongsToRelationship value) \<Rightarrow>
            (case belongsToValue c returnModeIsId value st of
               (result, st1) \<Rightarrow>
                 if returnModeIsId
                 then (Inr result, snap\<lparr>belongsToIds := (belongsToIds snap)(keyName \<mapsto> result)\<rparr>, st1)
                 else (Inr result,
                       snap\<lparr>belongsToRelationships :=
                              (belongsToRelationships snap)(keyName \<mapsto> result)\<rparr>, st1)))"

definition memberId :: "resourceIdentifier \<Rightarrow> string option" where
  "memberId member =
     (case ri_id member of Some i \<Rightarrow> if i \<noteq> [] then Some i else None | None \<Rightarrow> None)"

fun hasManyIdsOf ::
  "'s collaborators \<Rightarrow> resourceIdentifier list \<Rightarrow> 's \<Rightarrow> string option list \<times> 's" where
  "hasManyIdsOf c [] st = ([], st)"
| "hasManyIdsOf c (member # members) st =
     (case internalModelForResource c st member of
        (internalModel, st1) \<Rightarrow>
          (case hasManyIdsOf c members st1 of
             (results, st2) \<Rightarrow>
               if \<not> imv_isDeleted internalModel
               then (memberId member # results, st2)
               else (results, st2)))"

fun hasManySnapshotsOf ::
  "'s collaborators \<Rightarrow> resourceIdentifier list \<Rightarrow> 's \<Rightarrow> ref list \<times> 's" where
  "hasManySnapshotsOf c [] st = ([], st)"
| "hasManySnapshotsOf c (member # members) st =
     (case internalModelForResource c st member of
        (internalModel, st1) \<Rightarrow>
          if \<not> imv_isDeleted internalModel
          then (case createSnapshot c st1 (imv_identifier internalModel) of
                  (s, st2) \<Rightarrow>
                    (case hasManySnapshotsOf c members st2 of
                       (results, st3) \<Rightarrow> (s # results, st3)))
          else hasManySnapshotsOf c members st1)"

definition hasManyValue ::
  "'s collaborators \<Rightarrow> bool \<Rightarrow> resourceIdentifier list member \<Rightarrow> 's \<Rightarrow> hasManyResult \<times> 's" where
  "hasManyValue c returnModeIsIds data st =
     (case data of
        Defined members \<Rightarrow>
          if returnModeIsIds
          then (case hasManyIdsOf c members st of (results, st1) \<Rightarrow> (HIds results, st1))
          else (case hasManySnapshotsOf c members st of (results, st1) \<Rightarrow> (HSnapshots results, st1))
      | _ \<Rightarrow> (HUndefined, st))"

definition hasMany ::
  "'s collaborators \<Rightarrow> snapshot \<Rightarrow> string \<Rightarrow> bool \<Rightarrow> 's \<Rightarrow>
     (error + hasManyResult) \<times> snapshot \<times> 's" where
  "hasMany c snap keyName returnModeIsIds st =
     (if returnModeIsIds \<and> hasManyIds snap keyName \<noteq> None
      then (Inr (the (hasManyIds snap keyName)), snap, st)
      else if \<not> returnModeIsIds \<and> hasManyRelationships snap keyName \<noteq> None
      then (Inr (the (hasManyRelationships snap keyName)), snap, st)
      else if relationshipsDefinitionFor c (s_modelName snap) = None
      then (Inl TypeError, snap, st)
      else if the (relationshipsDefinitionFor c (s_modelName snap)) keyName \<noteq> Some HasManyKind
      then (Inl (NoHasManyNamed keyName), snap, st)
      else if \<not> hasRecordDataPackage c then (Inl RecordDataPackageMissing, snap, st)
      else
        case graphGet c st (s_identifier snap) keyName of
          None \<Rightarrow> (Inl (RelationshipNotFound keyName), snap, st)
        | Some (BelongsToRelationship v) \<Rightarrow> (Inl (RelationshipIsBelongsTo keyName), snap, st)
        | Some (ManyRelationship None) \<Rightarrow> (Inl TypeError, snap, st)
        | Some (ManyRelationship (Some data)) \<Rightarrow>
            (case hasManyValue c returnModeIsIds data st of
               (results, st1) \<Rightarrow>
                 if returnModeIsIds
                 then (Inr results, snap\<lparr>hasManyIds := (hasManyIds snap)(keyName \<mapsto> results)\<rparr>, st1)
                 else (Inr results,
                       snap\<lparr>hasManyRelationships :=
                              (hasManyRelationships snap)(keyName \<mapsto> results)\<rparr>, st1)))"


text \<open>
  The life of a snapshot, as far as its relationships go, is a sequence of calls of
  \<^verbatim>\<open>belongsTo\<close> and \<^verbatim>\<open>hasMany\<close>, each against the collaborators as they are at that
  moment. \<open>runCalls\<close> applies such a sequence, whatever each call returns.
\<close>

datatype call = BelongsToCall string bool | HasManyCall string bool

fun runCalls :: "('s collaborators \<times> call) list \<Rightarrow> snapshot \<Rightarrow> 's \<Rightarrow> snapshot \<times> 's" where
  "runCalls [] snap st = (snap, st)"
| "runCalls ((c, BelongsToCall keyName m) # calls) snap st =
     (case belongsTo c snap keyName m st of (r, snap1, st1) \<Rightarrow> runCalls calls snap1 st1)"
| "runCalls ((c, HasManyCall keyName m) # calls) snap st =
     (case hasMany c snap keyName m st of (r, snap1, st1) \<Rightarrow> runCalls calls snap1 st1)"

text \<open>Every value memoized in the first snapshot is memoized in the second.\<close>

definition memoKept :: "snapshot \<Rightarrow> snapshot \<Rightarrow> bool" where
  "memoKept snap snap' =
     ((\<forall>k v. belongsToIds snap k = Some v \<longrightarrow> belongsToIds snap' k = Some v) \<and>
      (\<forall>k v. belongsToRelationships snap k = Some v \<longrightarrow> belongsToRelationships snap' k = Some v) \<and>
      (\<forall>k v. hasManyIds snap k = Some v \<longrightarrow> hasManyIds snap' k = Some v) \<and>
      (\<forall>k v. hasManyRelationships snap k = Some v \<longrightarrow> hasManyRelationships snap' k = Some v))"

section \<open>\<^verbatim>\<open>Snapshot\<close>: attributes\<close>

text \<open>
  Attribute dictionaries are objects that callers may hold and mutate, so they live in
  a heap: a dictionary of attribute values (\<^verbatim>\<open>Dict<unknown>\<close>), a dictionary of changed
  attributes whose values are references to arrays (\<^verbatim>\<open>Dict<[unknown, unknown]>\<close>), and the
  arrays. A dictionary is the list of its entries in insertion order. Attribute values
  are of any type \<open>'v\<close>; a copy shares the values themselves.
\<close>

record 'v heap =
  attributeDicts :: "ref \<Rightarrow> (string \<times> 'v) list"
  changedDicts :: "ref \<Rightarrow> (string \<times> ref) list"
  valuePairs :: "ref \<Rightarrow> 'v list"
  nextObject :: nat

text \<open>
  What the getter \<^verbatim>\<open>_attributes\<close> reads when it fills \<^verbatim>\<open>__attributes\<close>: the attribute
  names of the schema, whether the model class is a \<^verbatim>\<open>DSModel\<close>, and the value of an
  attribute on the record or in the record data.
\<close>

record 'v attributeSource =
  attributeNames :: "string list"
  schemaIsDSModel :: bool
  recordGet :: "string \<Rightarrow> 'v"
  getAttr :: "string \<Rightarrow> 'v"

definition priv_attributes ::
  "'v attributeSource \<Rightarrow> snapshot \<Rightarrow> 'v heap \<Rightarrow> ref \<times> snapshot \<times> 'v heap" where
  "priv_attributes src snap h =
     (case attributesRef snap of
        Some a \<Rightarrow> (a, snap, h)
      | None \<Rightarrow>
          (let a = nextObject h;
               attributes =
                 fold (\<lambda>keyName d.
                         AList.update keyName
                           (if schemaIsDSModel src then recordGet src keyName
                            else getAttr src keyName) d)
                   (attributeNames src) []
           in (a, snap\<lparr>attributesRef := Some a\<rparr>,
               h\<lparr>attributeDicts := (attributeDicts h)(a := attributes),
                  nextObject := Suc a\<rparr>)))"

definition attributes ::
  "'v attributeSource \<Rightarrow> snapshot \<Rightarrow> 'v heap \<Rightarrow> ref \<times> snapshot \<times> 'v heap" where
  "attributes src snap h =
     (case priv_attributes src snap h of
        (a, snap1, h1) \<Rightarrow>
          (nextObject h1, snap1,
           h1\<lparr>attributeDicts := (attributeDicts h1)(nextObject h1 := attributeDicts h1 a),
               nextObject := Suc (nextObject h1)\<rparr>))"

fun copyChanged :: "(string \<times> ref) list \<Rightarrow> ref \<Rightarrow> 'v heap \<Rightarrow> 'v heap" where
  "copyChanged [] changedAttributes h = h"
| "copyChanged ((key, pair) # rest) changedAttributes h =
     copyChanged rest changedAttributes
       (h\<lparr>valuePairs := (valuePairs h)(nextObject h := valuePairs h pair),
          changedDicts := (changedDicts h)
            (changedAttributes := AList.update key (nextObject h) (changedDicts h changedAttributes)),
          nextObject := Suc (nextObject h)\<rparr>)"

definition changedAttributes :: "snapshot \<Rightarrow> 'v heap \<Rightarrow> ref \<times> 'v heap" where
  "changedAttributes snap h =
     (let r = nextObject h;
          h1 = h\<lparr>changedDicts := (changedDicts h)(r := []), nextObject := Suc r\<rparr>
      in case changedAttributesRef snap of
           None \<Rightarrow> (r, h1)
         | Some c \<Rightarrow> (r, copyChanged (changedDicts h1 c) r h1))"

text \<open>What a caller reads in a dictionary of changed attributes: each key with its pair.\<close>

definition changedContent :: "'v heap \<Rightarrow> ref \<Rightarrow> (string \<times> 'v list) list" where
  "changedContent h r = map (\<lambda>(key, pair). (key, valuePairs h pair)) (changedDicts h r)"

section \<open>Fetch coordination in the store\<close>


















section \<open>Example states\<close>

text \<open>
  A store with two identifiers of type \<^verbatim>\<open>user\<close>: a client-side one without an \<^verbatim>\<open>id\<close>
  (\<^verbatim>\<open>lid\<close> \<^verbatim>\<open>L1\<close>) and one known to the server as \<^verbatim>\<open>user:1\<close> (\<^verbatim>\<open>lid\<close> \<^verbatim>\<open>L2\<close>), each
  with a loaded entry that has a record.
\<close>

definition entry :: "ref \<Rightarrow> string \<Rightarrow> string option \<Rightarrow> bool \<Rightarrow> internalModel" where
  "entry identifier type rid record =
     \<lparr>im_identifier = identifier, modelName = type, im_id = rid, hasRecord = record,
      isEmpty = False, isLoading = False, isLoaded = True, scheduledDestroy = False,
      isDestroyed = False, pushedData = []\<rparr>"

definition exampleStore :: store where
  "exampleStore =
     \<lparr>identifiers = (\<lambda>r. if r = 0 then \<lparr>itype = ''user'', iid = None, ilid = ''L1''\<rparr>
                         else \<lparr>itype = ''user'', iid = Some ''1'', ilid = ''L2''\<rparr>),
      nextIdentifier = 2,
      lids = [''L1'' \<mapsto> 0, ''L2'' \<mapsto> 1],
      ids = [(''user'', ''1'') \<mapsto> 1],
      models = (\<lambda>r. if r = 0 then entry 0 ''user'' None True else entry 1 ''user'' (Some ''1'') True),
      nextModel = 2,
      identityMap = [(''user'', ''L1'') \<mapsto> 0, (''user'', ''L2'') \<mapsto> 1],
      typeExists = (\<lambda>t. t = ''user''),
      normalizeModelName = (\<lambda>t. t),
      generateLid = (\<lambda>n. replicate (Suc n) (CHR ''#'')),
      changedRecords = []\<rparr>"

definition exampleGood :: resourceObject where
  "exampleGood = \<lparr>r_type = ''user'', r_id = Some (IdStr ''1''), r_lid = None, r_attributes = [(''name'', ''Ann'')]\<rparr>"

definition exampleBad :: resourceObject where
  "exampleBad = \<lparr>r_type = ''comment'', r_id = Some (IdStr []), r_lid = None, r_attributes = []\<rparr>"

definition exampleDocument :: jsonApiDocument where
  "exampleDocument = \<lparr>doc_included = Some [exampleGood], doc_data = DataObject exampleBad\<rparr>"

text \<open>The same store with a destroy scheduled for the entry of \<^verbatim>\<open>user:1\<close>.\<close>

definition scheduledStore :: store where
  "scheduledStore =
     exampleStore\<lparr>models := (models exampleStore)
        (1 := (models exampleStore 1)\<lparr>scheduledDestroy := True\<rparr>)\<rparr>"



text \<open>
  A store in which identifiers of two types stand for one resource: \<^verbatim>\<open>user:1\<close>
  (\<^verbatim>\<open>lid\<close> \<^verbatim>\<open>L1\<close>) and \<^verbatim>\<open>admin:1\<close> (\<^verbatim>\<open>lid\<close> \<^verbatim>\<open>L2\<close>), each with a loaded entry
  that has a record, filed in the map of its own type as \<^verbatim>\<open>_build\<close> files it; and
  data that names the resource as an \<^verbatim>\<open>admin\<close> and carries the \<^verbatim>\<open>lid\<close> of the first.
\<close>

definition crossStore :: store where
  "crossStore =
     exampleStore
       \<lparr>identifiers := (\<lambda>r. if r = 0 then \<lparr>itype = ''user'', iid = Some ''1'', ilid = ''L1''\<rparr>
                             else \<lparr>itype = ''admin'', iid = Some ''1'', ilid = ''L2''\<rparr>),
        ids := [(''user'', ''1'') \<mapsto> 0, (''admin'', ''1'') \<mapsto> 1],
        models := (\<lambda>r. if r = 0 then entry 0 ''user'' (Some ''1'') True
                        else entry 1 ''admin'' (Some ''1'') True),
        identityMap := [(''user'', ''L1'') \<mapsto> 0, (''admin'', ''L2'') \<mapsto> 1],
        typeExists := (\<lambda>t. t = ''user'' \<or> t = ''admin'')\<rparr>"

definition crossData :: resourceObject where
  "crossData = \<lparr>r_type = ''admin'', r_id = Some (IdStr ''1''), r_lid = Some ''L1'',
                 r_attributes = [(''name'', ''Ann'')]\<rparr>"

text \<open>
  A snapshot of \<^verbatim>\<open>post:9\<close> on which nothing has been read yet, and collaborators for
  it: the post belongs to the author \<^verbatim>\<open>user:1\<close> and has three comments, of which
  \<^verbatim>\<open>comment:2\<close> is deleted; creating a snapshot numbers it. In
  \<open>deletedCollaborators\<close> every related record is deleted; in
  \<open>changedCollaborators\<close> the relationships have been emptied as well.
\<close>

definition exampleView :: "resourceIdentifier \<Rightarrow> internalModelView" where
  "exampleView r =
     \<lparr>imv_identifier = \<lparr>itype = ri_type r, iid = ri_id r, ilid = ri_type r @ '':'' @ (case ri_id r of Some i \<Rightarrow> i | None \<Rightarrow> [])\<rparr>,
      imv_id = ri_id r, imv_isDeleted = (ri_id r = Some ''2'')\<rparr>"

definition exampleComments :: "resourceIdentifier list" where
  "exampleComments =
     [\<lparr>ri_type = ''comment'', ri_id = Some ''1'', ri_lid = None\<rparr>,
      \<lparr>ri_type = ''comment'', ri_id = Some ''2'', ri_lid = None\<rparr>,
      \<lparr>ri_type = ''comment'', ri_id = Some ''3'', ri_lid = None\<rparr>]"

definition exampleAuthor :: resourceIdentifier where
  "exampleAuthor = \<lparr>ri_type = ''user'', ri_id = Some ''1'', ri_lid = None\<rparr>"

definition exampleCollaborators :: "nat collaborators" where
  "exampleCollaborators =
     \<lparr>hasRecordDataPackage = True,
      relationshipsDefinitionFor =
        (\<lambda>t. if t = ''post''
             then Some [''author'' \<mapsto> BelongsToKind, ''comments'' \<mapsto> HasManyKind]
             else None),
      graphGet =
        (\<lambda>st i k. if k = ''author'' then Some (BelongsToRelationship (Some (Defined exampleAuthor)))
                  else if k = ''comments'' then Some (ManyRelationship (Some (Defined exampleComments)))
                  else None),
      internalModelForResource = (\<lambda>st r. (exampleView r, st)),
      createSnapshot = (\<lambda>st i. (st, Suc st))\<rparr>"

definition changedCollaborators :: "nat collaborators" where
  "changedCollaborators =
     exampleCollaborators
       \<lparr>graphGet := (\<lambda>st i k. if k = ''author'' then Some (BelongsToRelationship (Some Null))
                               else if k = ''comments'' then Some (ManyRelationship (Some (Defined [])))
                               else None),
        internalModelForResource := (\<lambda>st r. ((exampleView r)\<lparr>imv_isDeleted := True\<rparr>, st))\<rparr>"

definition deletedCollaborators :: "nat collaborators" where
  "deletedCollaborators =
     exampleCollaborators
       \<lparr>internalModelForResource := (\<lambda>st r. ((exampleView r)\<lparr>imv_isDeleted := True\<rparr>, st))\<rparr>"

definition exampleSnapshot :: snapshot where
  "exampleSnapshot =
     \<lparr>s_identifier = \<lparr>itype = ''post'', iid = Some ''9'', ilid = ''post:9''\<rparr>,
      s_modelName = ''post'',
      belongsToRelationships = Map.empty, belongsToIds = Map.empty,
      hasManyRelationships = Map.empty, hasManyIds = Map.empty,
      attributesRef = None, changedAttributesRef = None\<rparr>"

text \<open>
  A heap holding the changed attributes of the snapshot (the title went from
  \<^verbatim>\<open>Hi\<close> to \<^verbatim>\<open>Hello\<close>), the record data the attributes are read from, the heaps
  after the first call of \<^verbatim>\<open>attributes()\<close> and of \<^verbatim>\<open>changedAttributes()\<close>, and those
  heaps after the caller has overwritten the objects it was given.
\<close>

definition exampleHeap :: "string heap" where
  "exampleHeap =
     \<lparr>attributeDicts = (\<lambda>r. []),
      changedDicts = (\<lambda>r. if r = 0 then [(''title'', 1)] else []),
      valuePairs = (\<lambda>r. if r = 1 then [''Hi'', ''Hello''] else []),
      nextObject = 2\<rparr>"

definition exampleSource :: "string attributeSource" where
  "exampleSource =
     \<lparr>attributeNames = [''title'', ''body''], schemaIsDSModel = False,
      recordGet = (\<lambda>k. []),
      getAttr = (\<lambda>k. if k = ''title'' then ''Hello'' else ''World'')\<rparr>"

definition changedSnapshot :: snapshot where
  "changedSnapshot = exampleSnapshot\<lparr>changedAttributesRef := Some 0\<rparr>"

definition copiedHeap :: "string heap" where
  "copiedHeap = snd (snd (attributes exampleSource changedSnapshot exampleHeap))"

definition mutatedHeap :: "string heap" where
  "mutatedHeap = copiedHeap\<lparr>attributeDicts := (attributeDicts copiedHeap)(3 := [(''title'', ''changed'')])\<rparr>"

definition changedCopyHeap :: "string heap" where
  "changedCopyHeap = snd (changedAttributes changedSnapshot exampleHeap)"

definition mutatedChangedHeap :: "string heap" where
  "mutatedChangedHeap =
     changedCopyHeap\<lparr>changedDicts := (changedDicts changedCopyHeap)(2 := [(''body'', 3)]),
                      valuePairs := (valuePairs changedCopyHeap)(3 := [''changed''])\<rparr>"




section \<open>Unfolding rules\<close>

text \<open>The defining equations, grouped for evaluating the examples.\<close>

lemmas example_defs = exampleStore_def entry_def exampleGood_def exampleBad_def exampleDocument_def

lemmas cache_defs = peekRecordIdentifier_def registerIdentifier_def getOrCreateRecordIdentifier_def
  createIdentifierForNewRecord_def forgetRecordIdentifier_def performRecordIdentifierUpdate_def
  updateRecordIdentifier_def stringId_def readId_def idvalOf_def

lemmas factory_defs = mapGet_def mapAdd_def mapRemove_def peek_def remove_im_def destroySync_def
  peekById_def priv_build_def build_def lookup_def resourceOfIdentifier_def newInternalModel_def
  hasScheduledDestroy_def cancelDestroy_def setupData_def

lemmas load_defs = priv_load_def idMissing_def doesTypeExist_def resourceOf_def finishLoad_def dataOf_def


lemmas cross_example_defs = crossStore_def crossData_def example_defs

lemmas merge_defs = intendedIdentifier_def altIdentifier_def mergeSurvivor_def mergeCallback_def

lemmas snapshot_example_defs = exampleView_def exampleComments_def exampleAuthor_def
  exampleCollaborators_def changedCollaborators_def deletedCollaborators_def exampleSnapshot_def

lemmas snapshot_defs = belongsTo_def belongsToValue_def hasMany_def hasManyValue_def memberId_def

lemmas heap_example_defs = exampleHeap_def exampleSource_def changedSnapshot_def exampleSnapshot_def
  copiedHeap_def mutatedHeap_def changedCopyHeap_def mutatedChangedHeap_def

lemmas attribute_defs = attributes_def priv_attributes_def changedAttributes_def changedContent_def



section \<open>Properties of the merge callback\<close>

lemma merge_lookups:
  "(intendedIdentifier st identifier matchedIdentifier resourceData = identifier \<and>
    altIdentifier st identifier matchedIdentifier resourceData = matchedIdentifier) \<or>
   (intendedIdentifier st identifier matchedIdentifier resourceData = matchedIdentifier \<and>
    altIdentifier st identifier matchedIdentifier resourceData = identifier)"
  unfolding intendedIdentifier_def altIdentifier_def Let_def by auto

text \<open>
  C4. The choice of the intended identifier. When the \<^verbatim>\<open>id\<close> fields of the two
  identifiers differ, the one whose \<^verbatim>\<open>id\<close> equals the \<^verbatim>\<open>id\<close> of the resource data is
  the intended one; when the \<^verbatim>\<open>id\<close> fields agree and the \<^verbatim>\<open>type\<close> fields differ, the
  one whose \<^verbatim>\<open>type\<close> equals the type of the resource data is; and in every case the
  other of the two is the alternate.
\<close>

theorem merge_intended_choice:
  "(iid (identifiers st identifier) \<noteq> iid (identifiers st matchedIdentifier) \<longrightarrow>
      (d_id resourceData = Some (idvalOf (iid (identifiers st identifier))) \<longrightarrow>
         intendedIdentifier st identifier matchedIdentifier resourceData = identifier) \<and>
      (d_id resourceData = Some (idvalOf (iid (identifiers st matchedIdentifier))) \<longrightarrow>
         intendedIdentifier st identifier matchedIdentifier resourceData = matchedIdentifier)) \<and>
   (iid (identifiers st identifier) = iid (identifiers st matchedIdentifier) \<and>
    itype (identifiers st identifier) \<noteq> itype (identifiers st matchedIdentifier) \<longrightarrow>
      (d_type resourceData = Some (itype (identifiers st identifier)) \<longrightarrow>
         intendedIdentifier st identifier matchedIdentifier resourceData = identifier) \<and>
      (d_type resourceData = Some (itype (identifiers st matchedIdentifier)) \<longrightarrow>
         intendedIdentifier st identifier matchedIdentifier resourceData = matchedIdentifier)) \<and>
   ((intendedIdentifier st identifier matchedIdentifier resourceData = identifier \<and>
     altIdentifier st identifier matchedIdentifier resourceData = matchedIdentifier) \<or>
    (intendedIdentifier st identifier matchedIdentifier resourceData = matchedIdentifier \<and>
     altIdentifier st identifier matchedIdentifier resourceData = identifier))"
  unfolding intendedIdentifier_def altIdentifier_def Let_def
  by (cases "iid (identifiers st identifier)"; cases "iid (identifiers st matchedIdentifier)")
     (auto simp: idvalOf_def readId_def)

theorem merge_intended_choice_witness:
  "iid (identifiers exampleStore 0) \<noteq> iid (identifiers exampleStore 1) \<and>
   d_id (dataOf exampleGood) = Some (idvalOf (iid (identifiers exampleStore 1))) \<and>
   intendedIdentifier exampleStore 0 1 (dataOf exampleGood) = 1 \<and>
   altIdentifier exampleStore 0 1 (dataOf exampleGood) = 0"
proof -
  have a: "iid (identifiers exampleStore 0) \<noteq> iid (identifiers exampleStore 1)"
    by (simp add: example_defs)
  have b: "d_id (dataOf exampleGood) = Some (idvalOf (iid (identifiers exampleStore 1)))"
    by (simp add: example_defs dataOf_def idvalOf_def)
  from merge_intended_choice [of exampleStore 0 1 "dataOf exampleGood"] a b show ?thesis
    by auto
qed

text \<open>
  The conflict check of the callback. When the callback finds an internal model
  under each of the two \<^verbatim>\<open>lid\<close>s in the map it consults, the map of
  \<^verbatim>\<open>identifier.type\<close>, and both have records, it throws: the error carries both
  identifiers, and the store is as it was, so both entries are still filed. For
  two identifiers of one type these are the entries \<open>peek\<close> finds.
\<close>

lemma merge_conflict_within_map:
  assumes "mapGet st (itype (identifiers st identifier)) (ilid (identifiers st identifier)) = Some im1"
    and "mapGet st (itype (identifiers st identifier)) (ilid (identifiers st matchedIdentifier)) = Some im2"
    and "hasRecord (models st im1)" and "hasRecord (models st im2)"
  shows "mergeCallback st identifier matchedIdentifier resourceData =
           (Inl (if d_id resourceData \<noteq> None
                 then IdInUse (identifiers st identifier) (readId (d_id resourceData))
                        (identifiers st matchedIdentifier)
                 else MergeDuplicate (identifiers st identifier) (identifiers st matchedIdentifier)),
            st)"
  using merge_lookups [of st "identifier" matchedIdentifier resourceData] assms
  by (auto simp: mergeCallback_def Let_def)

lemma merge_conflict_within_map_example:
  "mergeCallback exampleStore 0 1 (dataOf exampleGood) =
     (Inl (IdInUse \<lparr>itype = ''user'', iid = None, ilid = ''L1''\<rparr> (IdStr ''1'')
             \<lparr>itype = ''user'', iid = Some ''1'', ilid = ''L2''\<rparr>), exampleStore) \<and>
   peek exampleStore 0 = Some 0 \<and> peek exampleStore 1 = Some 1"
proof -
  have a: "mapGet exampleStore (itype (identifiers exampleStore 0)) (ilid (identifiers exampleStore 0)) = Some 0"
    by (simp add: example_defs mapGet_def)
  have b: "mapGet exampleStore (itype (identifiers exampleStore 0)) (ilid (identifiers exampleStore 1)) = Some 1"
    by (simp add: example_defs mapGet_def)
  have c: "hasRecord (models exampleStore 0)" by (simp add: example_defs)
  have d: "hasRecord (models exampleStore 1)" by (simp add: example_defs)
  have e: "peek exampleStore 0 = Some 0 \<and> peek exampleStore 1 = Some 1"
    by (simp add: example_defs peek_def mapGet_def)
  from merge_conflict_within_map [OF a b c d, of "dataOf exampleGood"] e show ?thesis
    by (simp add: example_defs dataOf_def readId_def)
qed

text \<open>
  C2. The callback does not reject every merge of two identifiers whose internal
  models both exist and both have records. The comment above its check reads
  \<^verbatim>\<open>we cannot merge internalModels when both have records\<close>, and its second branch
  chooses between identifiers of different types; yet it looks both \<^verbatim>\<open>lid\<close>s up in
  the one map of \<^verbatim>\<open>identifier.type\<close>, while \<^verbatim>\<open>_build\<close>, \<^verbatim>\<open>peek\<close> and \<^verbatim>\<open>remove\<close> file an
  entry in the map of its own type. On the store with \<^verbatim>\<open>user:1\<close> and \<^verbatim>\<open>admin:1\<close>,
  where \<open>peek\<close> finds an entry with a record for each identifier, the callback
  called with the \<^verbatim>\<open>user\<close> identifier, the \<^verbatim>\<open>admin\<close> identifier and data of type
  \<^verbatim>\<open>admin\<close> throws nothing: it returns the \<^verbatim>\<open>admin\<close> identifier, takes the entry of the
  \<^verbatim>\<open>user\<close> identifier out of its slot and files it under the other \<^verbatim>\<open>lid\<close> in the
  \<^verbatim>\<open>user\<close> map, where \<open>peek\<close> reaches it through neither identifier.
\<close>

theorem merge_conflict_missed_across_types:
  "peek crossStore 0 = Some 0 \<and> peek crossStore 1 = Some 1 \<and>
   hasRecord (models crossStore 0) \<and> hasRecord (models crossStore 1) \<and>
   iid (identifiers crossStore 0) = iid (identifiers crossStore 1) \<and>
   fst (mergeCallback crossStore 0 1 (dataOf crossData)) = Inr 1 \<and>
   peek (snd (mergeCallback crossStore 0 1 (dataOf crossData))) 0 = None \<and>
   peek (snd (mergeCallback crossStore 0 1 (dataOf crossData))) 1 = Some 1 \<and>
   mapGet (snd (mergeCallback crossStore 0 1 (dataOf crossData))) ''user'' ''L2'' = Some 0"
  by (simp add: cross_example_defs merge_defs peek_def mapGet_def mapAdd_def mapRemove_def
      dataOf_def readId_def idvalOf_def Let_def)

section \<open>Properties of \<^verbatim>\<open>_load\<close> and \<^verbatim>\<open>_push\<close>\<close>

lemma load_missing_id:
  "idMissing (r_id data) \<Longrightarrow> priv_load st data = (Inl (MissingId (r_type data)), st)"
  by (simp add: priv_load_def)

lemma loadAll_fails:
  "r \<in> set rs \<Longrightarrow> idMissing (r_id r) \<Longrightarrow> \<exists>e s. loadAll st rs = (Inl e, s)"
proof (induction rs arbitrary: st)
  case Nil
  then show ?case by simp
next
  case (Cons x xs)
  show ?case
  proof (cases "priv_load st x")
    case (Pair res st1)
    show ?thesis
    proof (cases res)
      case (Inl e)
      with Pair show ?thesis by simp
    next
      case (Inr i)
      with Pair Cons.prems have "r \<in> set xs" by (auto simp: load_missing_id)
      from Cons.IH [OF this Cons.prems(2), of st1] obtain e s where "loadAll st1 xs = (Inl e, s)" by blast
      with Pair Inr show ?thesis by simp
    qed
  qed
qed

lemma loadAll_first_failure:
  "loadAll st pre = (Inr loaded, s1) \<Longrightarrow> priv_load s1 r = (Inl e, s2) \<Longrightarrow>
   loadAll st (pre @ r # post) = (Inl e, s2)"
proof (induction pre arbitrary: st loaded)
  case Nil
  then show ?case by simp
next
  case (Cons x xs)
  then show ?case by (auto split: prod.splits sum.splits)
qed

lemma loadAll_append:
  "loadAll st (xs @ ys) =
     (case loadAll st xs of
        (Inl e, s1) \<Rightarrow> (Inl e, s1)
      | (Inr a, s1) \<Rightarrow> (case loadAll s1 ys of (Inl e, s2) \<Rightarrow> (Inl e, s2) | (Inr b, s2) \<Rightarrow> (Inr (a @ b), s2)))"
  by (induction xs arbitrary: st) (auto split: prod.splits sum.splits)

lemma push_as_loadAll:
  "loadAll st (documentResources doc) = (Inl e, s) \<Longrightarrow> priv_push st doc = (Inl e, s)"
  by (cases "doc_data doc"; cases "doc_included doc")
    (auto simp: priv_push_def documentResources_def loadAll_append split: prod.splits sum.splits)

lemma push_other:
  "doc_data doc = DataOther \<Longrightarrow> \<exists>e s. priv_push st doc = (Inl e, s)"
  by (cases "doc_included doc")
    (auto simp: priv_push_def split: prod.splits sum.splits)


text \<open>
  C1. A resource object of the document whose \<^verbatim>\<open>id\<close> is \<^verbatim>\<open>null\<close>, \<^verbatim>\<open>undefined\<close> or
  the empty string makes \<^verbatim>\<open>_push\<close> fail. Every \<^verbatim>\<open>_load\<close> of such a resource throws
  the validation error that names the resource's type and returns the store it was
  given, unchanged. When the resources before it in the document load, that error
  is the result of \<^verbatim>\<open>_push\<close>, and the store is the one those loads left.
\<close>

theorem push_missing_id_fails:
  assumes "r \<in> set (documentResources doc)" and "idMissing (r_id r)"
  shows "(\<forall>s. priv_load s r = (Inl (MissingId (r_type r)), s)) \<and>
         (\<exists>e s'. priv_push st doc = (Inl e, s')) \<and>
         (\<forall>pre post loaded s1.
            documentResources doc = pre @ r # post \<and> loadAll st pre = (Inr loaded, s1) \<longrightarrow>
            priv_push st doc = (Inl (MissingId (r_type r)), s1))"
proof (intro conjI allI impI)
  fix s
  show "priv_load s r = (Inl (MissingId (r_type r)), s)"
    using assms(2) by (rule load_missing_id)
next
  from loadAll_fails [OF assms] obtain e s where "loadAll st (documentResources doc) = (Inl e, s)"
    by blast
  then have "priv_push st doc = (Inl e, s)" by (rule push_as_loadAll)
  then show "\<exists>e s'. priv_push st doc = (Inl e, s')" by blast
next
  fix pre post loaded s1
  assume h: "documentResources doc = pre @ r # post \<and> loadAll st pre = (Inr loaded, s1)"
  have "priv_load s1 r = (Inl (MissingId (r_type r)), s1)"
    using assms(2) by (rule load_missing_id)
  with h have "loadAll st (documentResources doc) = (Inl (MissingId (r_type r)), s1)"
    by (simp add: loadAll_first_failure)
  then show "priv_push st doc = (Inl (MissingId (r_type r)), s1)" by (rule push_as_loadAll)
qed

lemma exampleGood_loads: "\<exists>s1. loadAll exampleStore [exampleGood] = (Inr [1], s1)"
  by (simp add: example_defs cache_defs factory_defs load_defs Let_def)

theorem push_missing_id_fails_witness:
  "exampleBad \<in> set (documentResources exampleDocument) \<and> idMissing (r_id exampleBad) \<and>
   priv_load exampleStore exampleBad = (Inl (MissingId ''comment''), exampleStore) \<and>
   priv_push exampleStore exampleDocument =
     (Inl (MissingId ''comment''), snd (loadAll exampleStore [exampleGood]))"
proof -
  have m: "exampleBad \<in> set (documentResources exampleDocument)"
    by (simp add: documentResources_def exampleDocument_def)
  have i: "idMissing (r_id exampleBad)"
    by (simp add: idMissing_def exampleBad_def readId_def)
  have d: "documentResources exampleDocument = [exampleGood] @ exampleBad # []"
    by (simp add: documentResources_def exampleDocument_def)
  obtain s1 where l: "loadAll exampleStore [exampleGood] = (Inr [1], s1)"
    using exampleGood_loads by blast
  have t: "r_type exampleBad = ''comment''" by (simp add: exampleBad_def)
  from push_missing_id_fails [OF m i, of exampleStore] d l t m i show ?thesis
    by (metis snd_conv)
qed


















section \<open>Properties of the factory: scheduled destroys\<close>

lemma getOrCreate_keeps_models:
  "models (snd (getOrCreateRecordIdentifier st r)) = models st"
  "identityMap (snd (getOrCreateRecordIdentifier st r)) = identityMap st"
  "nextModel (snd (getOrCreateRecordIdentifier st r)) = nextModel st"
  by (simp_all add: getOrCreateRecordIdentifier_def registerIdentifier_def Let_def
      split: option.splits)

text \<open>
  C5. \<^verbatim>\<open>lookup(resource, data?)\<close>, with or without data. When the entry filed for
  the identifier the cache resolves the resource to (after the cache has seen the
  data, when data is given) has a scheduled destroy, \<^verbatim>\<open>lookup\<close> returns that very
  entry (the same reference), the destroy is cancelled, nothing else about that
  entry or any other changes, and no entry is built.
\<close>

theorem lookup_cancels_scheduled_destroy:
  assumes "getOrCreateRecordIdentifier
             (case data of Some d \<Rightarrow> snd (getOrCreateRecordIdentifier st d) | None \<Rightarrow> st)
             resource = (identifier, st2)"
    and "peek st2 identifier = Some internalModel"
    and "hasScheduledDestroy st internalModel"
  shows "lookup st resource data = (Inr internalModel, cancelDestroy st2 internalModel) \<and>
         models (cancelDestroy st2 internalModel) =
           (models st)(internalModel := (models st internalModel)\<lparr>scheduledDestroy := False\<rparr>) \<and>
         \<not> hasScheduledDestroy (cancelDestroy st2 internalModel) internalModel \<and>
         nextModel (cancelDestroy st2 internalModel) = nextModel st \<and>
         peek (cancelDestroy st2 internalModel) identifier = Some internalModel"
proof -
  define st1 where
    "st1 = (case data of Some d \<Rightarrow> snd (getOrCreateRecordIdentifier st d) | None \<Rightarrow> st)"
  have m1: "models st1 = models st" "nextModel st1 = nextModel st"
    by (simp_all add: st1_def getOrCreate_keeps_models split: option.splits)
  from assms(1) have s2: "st2 = snd (getOrCreateRecordIdentifier st1 resource)"
    by (simp add: st1_def)
  have m2: "models st2 = models st" "nextModel st2 = nextModel st"
    using m1 by (simp_all add: s2 getOrCreate_keeps_models)
  from assms(3) m2 have sd: "hasScheduledDestroy st2 internalModel"
    by (simp add: hasScheduledDestroy_def)
  have l: "lookup st resource data = (Inr internalModel, cancelDestroy st2 internalModel)"
    using assms(1,2) sd by (simp add: lookup_def Let_def)
  show ?thesis
    using l m2 assms(2)
    by (simp add: cancelDestroy_def hasScheduledDestroy_def peek_def mapGet_def)
qed

theorem lookup_cancels_scheduled_destroy_witness:
  "getOrCreateRecordIdentifier
     (case Some (resourceOf exampleGood) of
        Some d \<Rightarrow> snd (getOrCreateRecordIdentifier scheduledStore d) | None \<Rightarrow> scheduledStore)
     (resourceOf exampleGood) = (1, scheduledStore) \<and>
   peek scheduledStore 1 = Some 1 \<and> hasScheduledDestroy scheduledStore 1 \<and>
   lookup scheduledStore (resourceOf exampleGood) (Some (resourceOf exampleGood)) =
     (Inr 1, exampleStore) \<and>
   \<not> hasScheduledDestroy exampleStore 1 \<and> nextModel exampleStore = nextModel scheduledStore"
proof -
  have a: "getOrCreateRecordIdentifier
     (case Some (resourceOf exampleGood) of
        Some d \<Rightarrow> snd (getOrCreateRecordIdentifier scheduledStore d) | None \<Rightarrow> scheduledStore)
     (resourceOf exampleGood) = (1, scheduledStore)"
    by (simp add: scheduledStore_def example_defs cache_defs resourceOf_def)
  have b: "peek scheduledStore 1 = Some 1"
    by (simp add: scheduledStore_def example_defs peek_def mapGet_def)
  have c: "hasScheduledDestroy scheduledStore 1"
    by (simp add: scheduledStore_def example_defs hasScheduledDestroy_def)
  have d: "cancelDestroy scheduledStore 1 = exampleStore"
    by (simp add: scheduledStore_def example_defs cancelDestroy_def fun_eq_iff)
  from lookup_cancels_scheduled_destroy [OF a b c] a b c d show ?thesis by simp
qed




section \<open>Properties of \<^verbatim>\<open>Snapshot\<close>: memoized relationships\<close>

lemma memoKept_refl: "memoKept snap snap"
  by (simp add: memoKept_def)

lemma memoKept_trans: "memoKept a b \<Longrightarrow> memoKept b c \<Longrightarrow> memoKept a c"
  by (simp add: memoKept_def)

lemma belongsTo_memoKept:
  "belongsTo c snap keyName m st = (r, snap1, st1) \<Longrightarrow> memoKept snap snap1"
  by (auto simp: belongsTo_def memoKept_def
      split: if_splits option.splits relationship.splits prod.splits)

lemma hasMany_memoKept:
  "hasMany c snap keyName m st = (r, snap1, st1) \<Longrightarrow> memoKept snap snap1"
  by (auto simp: hasMany_def memoKept_def
      split: if_splits option.splits relationship.splits prod.splits)

lemma runCalls_memoKept:
  "runCalls calls snap st = (snap2, st2) \<Longrightarrow> memoKept snap snap2"
proof (induction calls snap st rule: runCalls.induct)
  case (1 snap st)
  then show ?case by (simp add: memoKept_refl)
next
  case (2 c keyName m calls snap st)
  obtain r snap1 st1 where b: "belongsTo c snap keyName m st = (r, snap1, st1)"
    by (cases "belongsTo c snap keyName m st") auto
  with 2 have "memoKept snap1 snap2" by simp
  with belongsTo_memoKept [OF b] show ?case by (rule memoKept_trans)
next
  case (3 c keyName m calls snap st)
  obtain r snap1 st1 where b: "hasMany c snap keyName m st = (r, snap1, st1)"
    by (cases "hasMany c snap keyName m st") auto
  with 3 have "memoKept snap1 snap2" by simp
  with hasMany_memoKept [OF b] show ?case by (rule memoKept_trans)
qed

lemma belongsTo_memoizes:
  "belongsTo c snap keyName m st = (Inr v, snap1, st1) \<Longrightarrow>
   (if m then belongsToIds snap1 keyName else belongsToRelationships snap1 keyName) = Some v"
  by (auto simp: belongsTo_def
      split: if_splits option.splits relationship.splits prod.splits)

lemma hasMany_memoizes:
  "hasMany c snap keyName m st = (Inr v, snap1, st1) \<Longrightarrow>
   (if m then hasManyIds snap1 keyName else hasManyRelationships snap1 keyName) = Some v"
  by (auto simp: hasMany_def
      split: if_splits option.splits relationship.splits prod.splits)

lemma belongsTo_memo_hit:
  "(if m then belongsToIds snap keyName else belongsToRelationships snap keyName) = Some v \<Longrightarrow>
   belongsTo c snap keyName m st = (Inr v, snap, st)"
  by (auto simp: belongsTo_def split: if_splits)

lemma hasMany_memo_hit:
  "(if m then hasManyIds snap keyName else hasManyRelationships snap keyName) = Some v \<Longrightarrow>
   hasMany c snap keyName m st = (Inr v, snap, st)"
  by (auto simp: hasMany_def split: if_splits)

text \<open>
  C8. Once \<^verbatim>\<open>belongsTo\<close> (or \<^verbatim>\<open>hasMany\<close>) has returned a value for a relationship name
  in a mode, every later call for that name in that mode returns the same value,
  whatever calls were made on the snapshot in between and whatever the collaborators
  have become (\<open>c'\<close> and \<open>st'\<close> are arbitrary): the snapshot and the state are
  returned unchanged, so nothing is looked up or created.
\<close>

theorem relationship_memoized:
  "(belongsTo c snap keyName m st = (Inr v, snap1, st1) \<and>
    runCalls calls snap1 st1 = (snap2, st2) \<longrightarrow>
      belongsTo c' snap2 keyName m st' = (Inr v, snap2, st')) \<and>
   (hasMany c snap keyName m st = (Inr w, snap1, st1) \<and>
    runCalls calls snap1 st1 = (snap2, st2) \<longrightarrow>
      hasMany c' snap2 keyName m st' = (Inr w, snap2, st'))"
proof (intro conjI impI)
  assume a: "belongsTo c snap keyName m st = (Inr v, snap1, st1) \<and>
    runCalls calls snap1 st1 = (snap2, st2)"
  then have k: "memoKept snap1 snap2" using runCalls_memoKept [of calls snap1 st1 snap2 st2] by simp
  from a belongsTo_memoizes [of c snap keyName m st v snap1 st1]
  have "(if m then belongsToIds snap1 keyName else belongsToRelationships snap1 keyName) = Some v"
    by simp
  with k have "(if m then belongsToIds snap2 keyName else belongsToRelationships snap2 keyName) = Some v"
    by (auto simp: memoKept_def split: if_splits)
  then show "belongsTo c' snap2 keyName m st' = (Inr v, snap2, st')"
    by (rule belongsTo_memo_hit)
next
  assume a: "hasMany c snap keyName m st = (Inr w, snap1, st1) \<and>
    runCalls calls snap1 st1 = (snap2, st2)"
  then have k: "memoKept snap1 snap2" using runCalls_memoKept [of calls snap1 st1 snap2 st2] by simp
  from a hasMany_memoizes [of c snap keyName m st w snap1 st1]
  have "(if m then hasManyIds snap1 keyName else hasManyRelationships snap1 keyName) = Some w"
    by simp
  with k have "(if m then hasManyIds snap2 keyName else hasManyRelationships snap2 keyName) = Some w"
    by (auto simp: memoKept_def split: if_splits)
  then show "hasMany c' snap2 keyName m st' = (Inr w, snap2, st')"
    by (rule hasMany_memo_hit)
qed


lemma example_belongsTo:
  "fst (belongsTo exampleCollaborators exampleSnapshot ''author'' False 0) = Inr (BSnapshot 0)"
  by (simp add: snapshot_example_defs snapshot_defs)

lemma example_hasMany:
  "fst (hasMany exampleCollaborators exampleSnapshot ''comments'' True 0) = Inr (HIds [Some ''1'', Some ''3''])"
  by (simp add: snapshot_example_defs snapshot_defs)

theorem relationship_memoized_witness:
  "fst (belongsTo exampleCollaborators exampleSnapshot ''author'' False 0) = Inr (BSnapshot 0) \<and>
   fst (belongsTo changedCollaborators
          (fst (runCalls [(changedCollaborators, HasManyCall ''comments'' True)]
                  (fst (snd (belongsTo exampleCollaborators exampleSnapshot ''author'' False 0)))
                  (snd (snd (belongsTo exampleCollaborators exampleSnapshot ''author'' False 0)))))
          ''author'' False 7) = Inr (BSnapshot 0) \<and>
   fst (hasMany exampleCollaborators exampleSnapshot ''comments'' True 0) =
     Inr (HIds [Some ''1'', Some ''3'']) \<and>
   fst (hasMany changedCollaborators
          (fst (runCalls [(changedCollaborators, BelongsToCall ''author'' True)]
                  (fst (snd (hasMany exampleCollaborators exampleSnapshot ''comments'' True 0)))
                  (snd (snd (hasMany exampleCollaborators exampleSnapshot ''comments'' True 0)))))
          ''comments'' True 7) = Inr (HIds [Some ''1'', Some ''3''])"
proof -
  let ?b = "belongsTo exampleCollaborators exampleSnapshot ''author'' False 0"
  let ?rb = "runCalls [(changedCollaborators, HasManyCall ''comments'' True)] (fst (snd ?b)) (snd (snd ?b))"
  let ?h = "hasMany exampleCollaborators exampleSnapshot ''comments'' True 0"
  let ?rh = "runCalls [(changedCollaborators, BelongsToCall ''author'' True)] (fst (snd ?h)) (snd (snd ?h))"
  have b: "?b = (Inr (BSnapshot 0), fst (snd ?b), snd (snd ?b))"
    using example_belongsTo by (simp add: prod_eq_iff)
  have h: "?h = (Inr (HIds [Some ''1'', Some ''3'']), fst (snd ?h), snd (snd ?h))"
    using example_hasMany by (simp add: prod_eq_iff)
  have rb: "?rb = (fst ?rb, snd ?rb)" by simp
  have rh: "?rh = (fst ?rh, snd ?rh)" by simp
  from relationship_memoized [of exampleCollaborators exampleSnapshot "''author''" False 0
      "BSnapshot 0" "fst (snd ?b)" "snd (snd ?b)"
      "[(changedCollaborators, HasManyCall ''comments'' True)]" "fst ?rb" "snd ?rb"
      changedCollaborators 7] b rb
  have 1: "belongsTo changedCollaborators (fst ?rb) ''author'' False 7 = (Inr (BSnapshot 0), fst ?rb, 7)"
    by blast
  from relationship_memoized [of exampleCollaborators exampleSnapshot "''comments''" True 0
      _ "fst (snd ?h)" "snd (snd ?h)"
      "[(changedCollaborators, BelongsToCall ''author'' True)]" "fst ?rh" "snd ?rh"
      changedCollaborators 7 "HIds [Some ''1'', Some ''3'']"] h rh
  have 2: "hasMany changedCollaborators (fst ?rh) ''comments'' True 7 =
             (Inr (HIds [Some ''1'', Some ''3'']), fst ?rh, 7)"
    by blast
  from 1 2 example_belongsTo example_hasMany show ?thesis by simp
qed


section \<open>Properties of \<^verbatim>\<open>Snapshot\<close>: deleted related records\<close>

lemma hasManyIdsOf_filter:
  "\<forall>s x. fst (internalModelForResource c s x) = view x \<Longrightarrow>
   fst (hasManyIdsOf c members st) =
     map memberId (filter (\<lambda>x. \<not> imv_isDeleted (view x)) members)"
proof (induction members arbitrary: st)
  case Nil
  then show ?case by simp
next
  case (Cons x xs)
  obtain im st1 where i: "internalModelForResource c st x = (im, st1)"
    by (cases "internalModelForResource c st x") auto
  with Cons.prems have v: "im = view x" by (metis fst_conv)
  obtain rs st2 where r: "hasManyIdsOf c xs st1 = (rs, st2)"
    by (cases "hasManyIdsOf c xs st1") auto
  with Cons.IH [OF Cons.prems, of st1]
  have "rs = map memberId (filter (\<lambda>x. \<not> imv_isDeleted (view x)) xs)" by simp
  with i v r show ?case by simp
qed

lemma hasManySnapshotsOf_filter:
  "\<forall>s x. fst (internalModelForResource c s x) = view x \<Longrightarrow>
   list_all2 (\<lambda>x r. \<exists>s. r = fst (createSnapshot c s (imv_identifier (view x))))
     (filter (\<lambda>x. \<not> imv_isDeleted (view x)) members)
     (fst (hasManySnapshotsOf c members st))"
proof (induction members arbitrary: st)
  case Nil
  then show ?case by simp
next
  case (Cons x xs)
  obtain im st1 where i: "internalModelForResource c st x = (im, st1)"
    by (cases "internalModelForResource c st x") auto
  with Cons.prems have v: "im = view x" by (metis fst_conv)
  show ?case
  proof (cases "imv_isDeleted (view x)")
    case True
    with i v Cons.IH [OF Cons.prems, of st1] show ?thesis by simp
  next
    case False
    obtain r st2 where s: "createSnapshot c st1 (imv_identifier (view x)) = (r, st2)"
      by (cases "createSnapshot c st1 (imv_identifier (view x))") auto
    obtain rs st3 where t: "hasManySnapshotsOf c xs st2 = (rs, st3)"
      by (cases "hasManySnapshotsOf c xs st2") auto
    from s have "\<exists>s. r = fst (createSnapshot c s (imv_identifier (view x)))"
      by (metis fst_conv)
    with False i v s t Cons.IH [OF Cons.prems, of st2] show ?thesis by simp
  qed
qed

text \<open>
  C9, as stated, fails once a value is memoized: after a first call, the same
  snapshot still returns the snapshot of the author and the ids \<^verbatim>\<open>1\<close> and \<^verbatim>\<open>3\<close>
  although every related record is now deleted.
\<close>

theorem deleted_related_records_counterexample:
  "imv_isDeleted (fst (internalModelForResource deletedCollaborators 7 exampleAuthor)) \<and>
   graphGet deletedCollaborators 7 (s_identifier exampleSnapshot) ''author'' =
     Some (BelongsToRelationship (Some (Defined exampleAuthor))) \<and>
   fst (belongsTo deletedCollaborators
          (fst (snd (belongsTo exampleCollaborators exampleSnapshot ''author'' False 0)))
          ''author'' False 7) = Inr (BSnapshot 0) \<and>
   list_all (\<lambda>x. imv_isDeleted (fst (internalModelForResource deletedCollaborators 7 x)))
     exampleComments \<and>
   graphGet deletedCollaborators 7 (s_identifier exampleSnapshot) ''comments'' =
     Some (ManyRelationship (Some (Defined exampleComments))) \<and>
   fst (hasMany deletedCollaborators
          (fst (snd (hasMany exampleCollaborators exampleSnapshot ''comments'' True 0)))
          ''comments'' True 7) = Inr (HIds [Some ''1'', Some ''3''])"
  by (simp add: snapshot_example_defs snapshot_defs)

text \<open>
  C9, amended. On the call that computes the relationship (nothing is memoized yet
  for the name in the mode, and the relationship is defined), \<^verbatim>\<open>belongsTo\<close> returns
  \<^verbatim>\<open>null\<close> when the internal model of the related record is deleted, and
  \<^verbatim>\<open>hasMany\<close> returns, in order, exactly the members whose internal model is not
  deleted: their ids in the ids mode, a snapshot created for the identifier of each
  otherwise. For \<^verbatim>\<open>hasMany\<close>, \<open>view\<close> is what a lookup shows of a member, the same at
  every state the loop passes through.
\<close>

theorem deleted_related_records_omitted:
  "((if m then belongsToIds snap keyName else belongsToRelationships snap keyName) = None \<and>
    relationshipsDefinitionFor c (s_modelName snap) = Some defs \<and>
    defs keyName = Some BelongsToKind \<and> hasRecordDataPackage c \<and>
    graphGet c st (s_identifier snap) keyName = Some (BelongsToRelationship (Some (Defined data))) \<and>
    imv_isDeleted (fst (internalModelForResource c st data)) \<longrightarrow>
      fst (belongsTo c snap keyName m st) = Inr BNull) \<and>
   ((if m then hasManyIds snap keyName else hasManyRelationships snap keyName) = None \<and>
    relationshipsDefinitionFor c (s_modelName snap) = Some defs \<and>
    defs keyName = Some HasManyKind \<and> hasRecordDataPackage c \<and>
    graphGet c st (s_identifier snap) keyName = Some (ManyRelationship (Some (Defined members))) \<and>
    (\<forall>s x. fst (internalModelForResource c s x) = view x) \<longrightarrow>
      (m \<longrightarrow> fst (hasMany c snap keyName m st) =
               Inr (HIds (map memberId (filter (\<lambda>x. \<not> imv_isDeleted (view x)) members)))) \<and>
      (\<not> m \<longrightarrow> (\<exists>refs. fst (hasMany c snap keyName m st) = Inr (HSnapshots refs) \<and>
               list_all2 (\<lambda>x r. \<exists>s. r = fst (createSnapshot c s (imv_identifier (view x))))
                 (filter (\<lambda>x. \<not> imv_isDeleted (view x)) members) refs)))"
proof (intro conjI impI)
  assume "(if m then belongsToIds snap keyName else belongsToRelationships snap keyName) = None \<and>
    relationshipsDefinitionFor c (s_modelName snap) = Some defs \<and>
    defs keyName = Some BelongsToKind \<and> hasRecordDataPackage c \<and>
    graphGet c st (s_identifier snap) keyName = Some (BelongsToRelationship (Some (Defined data))) \<and>
    imv_isDeleted (fst (internalModelForResource c st data))"
  then show "fst (belongsTo c snap keyName m st) = Inr BNull"
    by (cases "internalModelForResource c st data")
       (auto simp: belongsTo_def belongsToValue_def split: if_splits)
next
  assume a: "(if m then hasManyIds snap keyName else hasManyRelationships snap keyName) = None \<and>
    relationshipsDefinitionFor c (s_modelName snap) = Some defs \<and>
    defs keyName = Some HasManyKind \<and> hasRecordDataPackage c \<and>
    graphGet c st (s_identifier snap) keyName = Some (ManyRelationship (Some (Defined members))) \<and>
    (\<forall>s x. fst (internalModelForResource c s x) = view x)"
  assume m: m
  from a have v: "\<forall>s x. fst (internalModelForResource c s x) = view x" by simp
  from a m have "fst (hasMany c snap keyName m st) = Inr (HIds (fst (hasManyIdsOf c members st)))"
    by (cases "hasManyIdsOf c members st") (simp add: hasMany_def hasManyValue_def)
  with hasManyIdsOf_filter [OF v, of members st]
  show "fst (hasMany c snap keyName m st) =
          Inr (HIds (map memberId (filter (\<lambda>x. \<not> imv_isDeleted (view x)) members)))"
    by simp
next
  assume a: "(if m then hasManyIds snap keyName else hasManyRelationships snap keyName) = None \<and>
    relationshipsDefinitionFor c (s_modelName snap) = Some defs \<and>
    defs keyName = Some HasManyKind \<and> hasRecordDataPackage c \<and>
    graphGet c st (s_identifier snap) keyName = Some (ManyRelationship (Some (Defined members))) \<and>
    (\<forall>s x. fst (internalModelForResource c s x) = view x)"
  assume m: "\<not> m"
  from a have v: "\<forall>s x. fst (internalModelForResource c s x) = view x" by simp
  from a m have "fst (hasMany c snap keyName m st) =
      Inr (HSnapshots (fst (hasManySnapshotsOf c members st)))"
    by (cases "hasManySnapshotsOf c members st") (simp add: hasMany_def hasManyValue_def)
  with hasManySnapshotsOf_filter [OF v, of members st]
  show "\<exists>refs. fst (hasMany c snap keyName m st) = Inr (HSnapshots refs) \<and>
               list_all2 (\<lambda>x r. \<exists>s. r = fst (createSnapshot c s (imv_identifier (view x))))
                 (filter (\<lambda>x. \<not> imv_isDeleted (view x)) members) refs"
    by blast
qed

theorem deleted_related_records_omitted_witness:
  "(if False then belongsToIds exampleSnapshot ''author''
    else belongsToRelationships exampleSnapshot ''author'') = None \<and>
   graphGet deletedCollaborators 0 (s_identifier exampleSnapshot) ''author'' =
     Some (BelongsToRelationship (Some (Defined exampleAuthor))) \<and>
   imv_isDeleted (fst (internalModelForResource deletedCollaborators 0 exampleAuthor)) \<and>
   fst (belongsTo deletedCollaborators exampleSnapshot ''author'' False 0) = Inr BNull \<and>
   graphGet exampleCollaborators 0 (s_identifier exampleSnapshot) ''comments'' =
     Some (ManyRelationship (Some (Defined exampleComments))) \<and>
   filter (\<lambda>x. \<not> imv_isDeleted (exampleView x)) exampleComments =
     [\<lparr>ri_type = ''comment'', ri_id = Some ''1'', ri_lid = None\<rparr>,
      \<lparr>ri_type = ''comment'', ri_id = Some ''3'', ri_lid = None\<rparr>] \<and>
   fst (hasMany exampleCollaborators exampleSnapshot ''comments'' True 0) =
     Inr (HIds [Some ''1'', Some ''3'']) \<and>
   (\<exists>refs. fst (hasMany exampleCollaborators exampleSnapshot ''comments'' False 0) =
             Inr (HSnapshots refs) \<and> length refs = 2)"
proof -
  let ?defs = "[''author'' \<mapsto> BelongsToKind, ''comments'' \<mapsto> HasManyKind]"
  have b1: "(if False then belongsToIds exampleSnapshot ''author''
    else belongsToRelationships exampleSnapshot ''author'') = None"
    by (simp add: snapshot_example_defs)
  have b2: "relationshipsDefinitionFor deletedCollaborators (s_modelName exampleSnapshot) = Some ?defs"
    by (simp add: snapshot_example_defs)
  have b3: "?defs ''author'' = Some BelongsToKind" by simp
  have b4: "hasRecordDataPackage deletedCollaborators" by (simp add: snapshot_example_defs)
  have b5: "graphGet deletedCollaborators 0 (s_identifier exampleSnapshot) ''author'' =
     Some (BelongsToRelationship (Some (Defined exampleAuthor)))"
    by (simp add: snapshot_example_defs)
  have b6: "imv_isDeleted (fst (internalModelForResource deletedCollaborators 0 exampleAuthor))"
    by (simp add: snapshot_example_defs)
  from deleted_related_records_omitted [where m=False and snap=exampleSnapshot
      and keyName="''author''" and c=deletedCollaborators and defs="?defs" and st=0
      and data=exampleAuthor] b1 b2 b3 b4 b5 b6
  have B: "fst (belongsTo deletedCollaborators exampleSnapshot ''author'' False 0) = Inr BNull"
    by blast
  have h1: "hasManyIds exampleSnapshot ''comments'' = None"
    "hasManyRelationships exampleSnapshot ''comments'' = None"
    by (simp_all add: snapshot_example_defs)
  have h2: "relationshipsDefinitionFor exampleCollaborators (s_modelName exampleSnapshot) = Some ?defs"
    by (simp add: snapshot_example_defs)
  have h3: "?defs ''comments'' = Some HasManyKind" by simp
  have h4: "hasRecordDataPackage exampleCollaborators" by (simp add: snapshot_example_defs)
  have h5: "graphGet exampleCollaborators 0 (s_identifier exampleSnapshot) ''comments'' =
     Some (ManyRelationship (Some (Defined exampleComments)))"
    by (simp add: snapshot_example_defs)
  have h6: "\<forall>s x. fst (internalModelForResource exampleCollaborators s x) = exampleView x"
    by (simp add: snapshot_example_defs)
  have f: "filter (\<lambda>x. \<not> imv_isDeleted (exampleView x)) exampleComments =
     [\<lparr>ri_type = ''comment'', ri_id = Some ''1'', ri_lid = None\<rparr>,
      \<lparr>ri_type = ''comment'', ri_id = Some ''3'', ri_lid = None\<rparr>]"
    by (simp add: snapshot_example_defs)
  from deleted_related_records_omitted [where m=True and snap=exampleSnapshot
      and keyName="''comments''" and c=exampleCollaborators and defs="?defs" and st=0
      and members=exampleComments and view=exampleView] h1 h2 h3 h4 h5 h6
  have H1: "fst (hasMany exampleCollaborators exampleSnapshot ''comments'' True 0) =
      Inr (HIds (map memberId (filter (\<lambda>x. \<not> imv_isDeleted (exampleView x)) exampleComments)))"
    by simp
  from deleted_related_records_omitted [where m=False and snap=exampleSnapshot
      and keyName="''comments''" and c=exampleCollaborators and defs="?defs" and st=0
      and members=exampleComments and view=exampleView] h1 h2 h3 h4 h5 h6
  obtain refs where H2: "fst (hasMany exampleCollaborators exampleSnapshot ''comments'' False 0) =
      Inr (HSnapshots refs)"
    "list_all2 (\<lambda>x r. \<exists>s. r = fst (createSnapshot exampleCollaborators s (imv_identifier (exampleView x))))
       (filter (\<lambda>x. \<not> imv_isDeleted (exampleView x)) exampleComments) refs"
    by auto
  from H2(2) f have "length refs = 2" by (auto dest: list_all2_lengthD)
  with B H1 H2(1) f b1 b5 b6 h5 show ?thesis by (simp add: memberId_def)
qed


section \<open>Properties of \<^verbatim>\<open>Snapshot\<close>: copies of the attributes\<close>

lemma copyChanged_frame:
  "r \<ge> n \<Longrightarrow> nextObject h > r \<Longrightarrow> nextObject h \<ge> n \<Longrightarrow>
   nextObject (copyChanged es r h) \<ge> nextObject h \<and>
   attributeDicts (copyChanged es r h) = attributeDicts h \<and>
   (\<forall>x < n. changedDicts (copyChanged es r h) x = changedDicts h x \<and>
            valuePairs (copyChanged es r h) x = valuePairs h x)"
proof (induction es r h rule: copyChanged.induct)
  case (1 changedAttributes h)
  then show ?case by simp
next
  case (2 key pair rest changedAttributes h)
  then show ?case by auto
qed


lemma update_fresh_key: "k \<notin> fst ` set al \<Longrightarrow> AList.update k v al = al @ [(k, v)]"
  by (induction al) auto

lemma copyChanged_content:
  "distinct (map fst es) \<Longrightarrow> fst ` set es \<inter> fst ` set (changedDicts h r) = {} \<Longrightarrow>
   \<forall>(k, p) \<in> set es. p < nextObject h \<Longrightarrow>
   \<forall>(k, q) \<in> set (changedDicts h r). q < nextObject h \<Longrightarrow>
   changedContent (copyChanged es r h) r =
     changedContent h r @ map (\<lambda>(key, pair). (key, valuePairs h pair)) es"
proof (induction es r h rule: copyChanged.induct)
  case (1 changedAttributes h)
  then show ?case by simp
next
  case (2 key pair rest r h)
  let ?h = "h\<lparr>valuePairs := (valuePairs h)(nextObject h := valuePairs h pair),
          changedDicts := (changedDicts h)
            (r := AList.update key (nextObject h) (changedDicts h r)),
          nextObject := Suc (nextObject h)\<rparr>"
  from "2.prems"(2) have fresh: "key \<notin> fst ` set (changedDicts h r)" by auto
  then have d: "changedDicts ?h r = changedDicts h r @ [(key, nextObject h)]"
    by (simp add: update_fresh_key)
  have old: "map (\<lambda>(key, pair). (key, valuePairs ?h pair)) (changedDicts h r) =
             map (\<lambda>(key, pair). (key, valuePairs h pair)) (changedDicts h r)"
    using "2.prems"(4) by (auto intro!: map_cong)
  have c: "changedContent ?h r = changedContent h r @ [(key, valuePairs h pair)]"
    using d old by (simp add: changedContent_def)
  have p1: "distinct (map fst rest)" using "2.prems"(1) by simp
  have p2: "fst ` set rest \<inter> fst ` set (changedDicts ?h r) = {}"
    using "2.prems"(1,2) d by (auto simp: image_iff)
  have p3: "\<forall>(k, p) \<in> set rest. p < nextObject ?h" using "2.prems"(3) by auto
  have p4: "\<forall>(k, q) \<in> set (changedDicts ?h r). q < nextObject ?h"
    using "2.prems"(4) d by auto
  have rest: "map (\<lambda>(key, pair). (key, valuePairs ?h pair)) rest =
              map (\<lambda>(key, pair). (key, valuePairs h pair)) rest"
    using "2.prems"(3) by (auto intro!: map_cong)
  from "2.IH" [OF p1 p2 p3 p4] c rest show ?case by simp
qed

lemma changedAttributes_copy:
  assumes "changedAttributesRef snap = Some c" and "c < n" and "n \<le> nextObject h"
    and "distinct (map fst (changedDicts h c))"
    and "\<forall>(k, p) \<in> set (changedDicts h c). p < n"
    and "changedAttributes snap h = (r, h1)"
  shows "n \<le> r \<and> changedContent h1 r = changedContent h c \<and>
         nextObject h \<le> nextObject h1 \<and> attributeDicts h1 = attributeDicts h \<and>
         (\<forall>x < n. changedDicts h1 x = changedDicts h x \<and> valuePairs h1 x = valuePairs h x)"
proof -
  let ?r = "nextObject h"
  let ?h = "h\<lparr>changedDicts := (changedDicts h)(?r := []), nextObject := Suc ?r\<rparr>"
  from assms(2,3) have ne: "c \<noteq> ?r" by simp
  from assms(1,6) ne have r: "r = ?r" and h1: "h1 = copyChanged (changedDicts ?h c) ?r ?h"
    by (auto simp: changedAttributes_def Let_def)
  from assms(2,3) have cd: "changedDicts ?h c = changedDicts h c" by simp
  have content: "changedContent (copyChanged (changedDicts h c) ?r ?h) ?r =
      changedContent ?h ?r @ map (\<lambda>(key, pair). (key, valuePairs ?h pair)) (changedDicts h c)"
    using assms(3,4,5) by (intro copyChanged_content) auto
  have frame: "nextObject (copyChanged (changedDicts h c) ?r ?h) \<ge> nextObject ?h \<and>
   attributeDicts (copyChanged (changedDicts h c) ?r ?h) = attributeDicts ?h \<and>
   (\<forall>x < n. changedDicts (copyChanged (changedDicts h c) ?r ?h) x = changedDicts ?h x \<and>
            valuePairs (copyChanged (changedDicts h c) ?r ?h) x = valuePairs ?h x)"
    using assms(3) by (intro copyChanged_frame) auto
  from content ne have "changedContent h1 r = changedContent h c"
    by (simp add: h1 r cd changedContent_def)
  moreover from frame assms(3) have "nextObject h \<le> nextObject h1" "attributeDicts h1 = attributeDicts h"
    "\<forall>x < n. changedDicts h1 x = changedDicts h x \<and> valuePairs h1 x = valuePairs h x"
    by (auto simp: h1 cd)
  ultimately show ?thesis using r assms(3) by simp
qed


lemma update_entries: "(a, b) \<in> set (AList.update k v al) \<Longrightarrow> (a, b) \<in> set al \<or> (a, b) = (k, v)"
  by (induction al) (auto split: if_splits)

lemma copyChanged_fresh_pairs:
  "\<forall>(k, q) \<in> set (changedDicts h r). n \<le> q \<Longrightarrow> n \<le> nextObject h \<Longrightarrow>
   \<forall>(k, q) \<in> set (changedDicts (copyChanged es r h) r). n \<le> q"
proof (induction es r h rule: copyChanged.induct)
  case (1 changedAttributes h)
  then show ?case by simp
next
  case (2 key pair rest r h)
  let ?h = "h\<lparr>valuePairs := (valuePairs h)(nextObject h := valuePairs h pair),
          changedDicts := (changedDicts h)
            (r := AList.update key (nextObject h) (changedDicts h r)),
          nextObject := Suc (nextObject h)\<rparr>"
  have a: "\<forall>(k, q) \<in> set (changedDicts ?h r). n \<le> q"
    using "2.prems" by (auto dest: update_entries)
  have b: "n \<le> nextObject ?h" using "2.prems" by simp
  from "2.IH" [OF a b] show ?case by simp
qed

lemma changedAttributes_fresh:
  "changedAttributes snap h = (r, h1) \<Longrightarrow>
   nextObject h \<le> r \<and> (\<forall>(k, q) \<in> set (changedDicts h1 r). nextObject h \<le> q)"
  using copyChanged_fresh_pairs [of "h\<lparr>changedDicts := (changedDicts h)(nextObject h := []),
      nextObject := Suc (nextObject h)\<rparr>" "nextObject h" "nextObject h"]
  by (auto simp: changedAttributes_def Let_def split: option.splits)

lemma attributes_twice:
  assumes "case attributesRef snap of Some a \<Rightarrow> a < nextObject h | None \<Rightarrow> True"
    and "attributes src snap h = (r, snap1, h1)"
    and "\<forall>x. x \<noteq> r \<longrightarrow> attributeDicts g x = attributeDicts h1 x"
    and "nextObject h1 \<le> nextObject g"
    and "attributes src' snap1 g = (r', snap2, g')"
  shows "nextObject h \<le> r \<and>
         (\<exists>a. attributesRef snap1 = Some a \<and> a \<noteq> r \<and> a \<noteq> r' \<and> r' \<noteq> r \<and>
              attributeDicts h1 r = attributeDicts h1 a \<and>
              attributeDicts g' a = attributeDicts h1 a \<and>
              attributeDicts g' r' = attributeDicts h1 r \<and> snap2 = snap1)"
  using assms
  by (cases "attributesRef snap")
     (auto simp: attributes_def priv_attributes_def Let_def split: prod.splits)


lemma changedContent_agree:
  "changedDicts a c = changedDicts b c \<Longrightarrow>
   \<forall>(k, p) \<in> set (changedDicts a c). valuePairs a p = valuePairs b p \<Longrightarrow>
   changedContent a c = changedContent b c"
  by (auto simp: changedContent_def intro!: map_cong)

lemma changedAttributes_twice:
  assumes c: "changedAttributesRef snap = Some c" and lt: "c < nextObject h"
    and d: "distinct (map fst (changedDicts h c))"
    and p: "\<forall>(k, p) \<in> set (changedDicts h c). p < nextObject h"
    and first: "changedAttributes snap h = (q, h1)"
    and mut: "\<forall>x < nextObject h. changedDicts g x = changedDicts h1 x \<and> valuePairs g x = valuePairs h1 x"
    and le: "nextObject h \<le> nextObject g"
    and second: "changedAttributes snap g = (q', g')"
  shows "nextObject h \<le> q \<and> (\<forall>(k, p) \<in> set (changedDicts h1 q). nextObject h \<le> p) \<and>
         changedContent h1 q = changedContent h c \<and>
         changedContent g' q' = changedContent h c \<and>
         changedContent g' c = changedContent h c \<and> nextObject g \<le> q'"
proof -
  from changedAttributes_copy [OF c lt _ d p first, of ] have
    f1: "changedContent h1 q = changedContent h c" and
    f2: "\<forall>x < nextObject h. changedDicts h1 x = changedDicts h x \<and> valuePairs h1 x = valuePairs h x"
    by simp_all
  from f2 mut have ag: "\<forall>x < nextObject h. changedDicts g x = changedDicts h x \<and> valuePairs g x = valuePairs h x"
    by simp
  with lt have gc: "changedDicts g c = changedDicts h c" by simp
  have gp: "\<forall>(k, p) \<in> set (changedDicts g c). p < nextObject h" using gc p by simp
  have gd: "distinct (map fst (changedDicts g c))" using gc d by simp
  have gh: "changedContent g c = changedContent h c"
    using gc ag p by (intro changedContent_agree) auto
  from changedAttributes_copy [OF c lt le gd gp second] have
    s1: "changedContent g' q' = changedContent g c" and
    s2: "\<forall>x < nextObject h. changedDicts g' x = changedDicts g x \<and> valuePairs g' x = valuePairs g x"
    by simp_all
  have s3: "changedContent g' c = changedContent g c"
    using s2 lt gp by (intro changedContent_agree) auto
  from changedAttributes_fresh [OF first] changedAttributes_fresh [OF second] f1 s1 s3 gh
  show ?thesis by simp
qed

text \<open>
  C10. \<^verbatim>\<open>attributes()\<close> returns a new dictionary (a reference that did not exist
  before the call, other than \<^verbatim>\<open>__attributes\<close>) with the entries of \<^verbatim>\<open>__attributes\<close>.
  Whatever the caller then writes to the returned dictionary (\<open>g\<close> differs from
  \<open>h1\<close> at \<open>r\<close> only), \<^verbatim>\<open>__attributes\<close> keeps its entries and a later call returns
  another new dictionary with the entries the first call returned.

  \<^verbatim>\<open>changedAttributes()\<close> returns a new dictionary whose values are new arrays, with
  the content of \<^verbatim>\<open>_changedAttributes\<close>. Whatever the caller then writes to the
  objects the call allocated (\<open>m\<close> agrees with \<open>k1\<close> on every object that existed
  before the call), \<^verbatim>\<open>_changedAttributes\<close> keeps its content and a later call
  returns that content again. The objects the snapshot holds are assumed allocated,
  and a dictionary has each key once. The copies are shallow: the attribute values
  themselves are shared.
\<close>

theorem attribute_copies_fresh:
  "((case attributesRef snap of Some a \<Rightarrow> a < nextObject h | None \<Rightarrow> True) \<and>
    attributes src snap h = (r, snap1, h1) \<and>
    (\<forall>x. x \<noteq> r \<longrightarrow> attributeDicts g x = attributeDicts h1 x) \<and>
    nextObject h1 \<le> nextObject g \<and>
    attributes src' snap1 g = (r', snap2, g') \<longrightarrow>
      nextObject h \<le> r \<and>
      (\<exists>a. attributesRef snap1 = Some a \<and> a \<noteq> r \<and> a \<noteq> r' \<and> r' \<noteq> r \<and>
           attributeDicts h1 r = attributeDicts h1 a \<and>
           attributeDicts g' a = attributeDicts h1 a \<and>
           attributeDicts g' r' = attributeDicts h1 r \<and> snap2 = snap1)) \<and>
   (changedAttributesRef snap = Some c \<and> c < nextObject h \<and>
    distinct (map fst (changedDicts h c)) \<and>
    (\<forall>(k, p) \<in> set (changedDicts h c). p < nextObject h) \<and>
    changedAttributes snap h = (q, k1) \<and>
    (\<forall>x < nextObject h. changedDicts m x = changedDicts k1 x \<and> valuePairs m x = valuePairs k1 x) \<and>
    nextObject h \<le> nextObject m \<and>
    changedAttributes snap m = (q', k2) \<longrightarrow>
      nextObject h \<le> q \<and> (\<forall>(k, p) \<in> set (changedDicts k1 q). nextObject h \<le> p) \<and>
      changedContent k1 q = changedContent h c \<and>
      changedContent k2 q' = changedContent h c \<and>
      changedContent k2 c = changedContent h c \<and> nextObject m \<le> q')"
proof (rule conjI; rule impI)
  assume "(case attributesRef snap of Some a \<Rightarrow> a < nextObject h | None \<Rightarrow> True) \<and>
    attributes src snap h = (r, snap1, h1) \<and>
    (\<forall>x. x \<noteq> r \<longrightarrow> attributeDicts g x = attributeDicts h1 x) \<and>
    nextObject h1 \<le> nextObject g \<and>
    attributes src' snap1 g = (r', snap2, g')"
  then have a: "case attributesRef snap of Some a \<Rightarrow> a < nextObject h | None \<Rightarrow> True"
    "attributes src snap h = (r, snap1, h1)"
    "\<forall>x. x \<noteq> r \<longrightarrow> attributeDicts g x = attributeDicts h1 x"
    "nextObject h1 \<le> nextObject g"
    "attributes src' snap1 g = (r', snap2, g')" by simp_all
  from attributes_twice [OF a]
  show "nextObject h \<le> r \<and>
      (\<exists>a. attributesRef snap1 = Some a \<and> a \<noteq> r \<and> a \<noteq> r' \<and> r' \<noteq> r \<and>
           attributeDicts h1 r = attributeDicts h1 a \<and>
           attributeDicts g' a = attributeDicts h1 a \<and>
           attributeDicts g' r' = attributeDicts h1 r \<and> snap2 = snap1)" by blast
next
  assume "changedAttributesRef snap = Some c \<and> c < nextObject h \<and>
    distinct (map fst (changedDicts h c)) \<and>
    (\<forall>(k, p) \<in> set (changedDicts h c). p < nextObject h) \<and>
    changedAttributes snap h = (q, k1) \<and>
    (\<forall>x < nextObject h. changedDicts m x = changedDicts k1 x \<and> valuePairs m x = valuePairs k1 x) \<and>
    nextObject h \<le> nextObject m \<and>
    changedAttributes snap m = (q', k2)"
  then have b: "changedAttributesRef snap = Some c" "c < nextObject h"
    "distinct (map fst (changedDicts h c))"
    "\<forall>(k, p) \<in> set (changedDicts h c). p < nextObject h"
    "changedAttributes snap h = (q, k1)"
    "\<forall>x < nextObject h. changedDicts m x = changedDicts k1 x \<and> valuePairs m x = valuePairs k1 x"
    "nextObject h \<le> nextObject m"
    "changedAttributes snap m = (q', k2)" by simp_all
  from changedAttributes_twice [OF b]
  show "nextObject h \<le> q \<and> (\<forall>(k, p) \<in> set (changedDicts k1 q). nextObject h \<le> p) \<and>
      changedContent k1 q = changedContent h c \<and>
      changedContent k2 q' = changedContent h c \<and>
      changedContent k2 c = changedContent h c \<and> nextObject m \<le> q'" by blast
qed


lemma example_attributes:
  "attributes exampleSource changedSnapshot exampleHeap =
     (3, changedSnapshot\<lparr>attributesRef := Some 2\<rparr>, copiedHeap)"
  by (simp add: heap_example_defs attribute_defs Let_def)

lemma example_copied:
  "attributeDicts copiedHeap 3 = [(''title'', ''Hello''), (''body'', ''World'')] \<and>
   attributeDicts copiedHeap 2 = [(''title'', ''Hello''), (''body'', ''World'')] \<and>
   nextObject copiedHeap = 4"
  by (simp add: heap_example_defs attribute_defs Let_def)

lemma example_changed:
  "changedAttributes changedSnapshot exampleHeap = (2, changedCopyHeap) \<and>
   changedDicts changedCopyHeap 2 = [(''title'', 3)] \<and>
   valuePairs changedCopyHeap 3 = [''Hi'', ''Hello''] \<and> nextObject changedCopyHeap = 4"
  by (simp add: heap_example_defs attribute_defs Let_def)

theorem attribute_copies_fresh_witness:
  "attributes exampleSource changedSnapshot exampleHeap =
     (3, changedSnapshot\<lparr>attributesRef := Some 2\<rparr>, copiedHeap) \<and>
   attributeDicts copiedHeap 3 = [(''title'', ''Hello''), (''body'', ''World'')] \<and>
   attributeDicts mutatedHeap 3 = [(''title'', ''changed'')] \<and>
   fst (attributes exampleSource (changedSnapshot\<lparr>attributesRef := Some 2\<rparr>) mutatedHeap) = 4 \<and>
   attributeDicts (snd (snd (attributes exampleSource (changedSnapshot\<lparr>attributesRef := Some 2\<rparr>) mutatedHeap))) 4 =
     [(''title'', ''Hello''), (''body'', ''World'')] \<and>
   attributeDicts (snd (snd (attributes exampleSource (changedSnapshot\<lparr>attributesRef := Some 2\<rparr>) mutatedHeap))) 2 =
     [(''title'', ''Hello''), (''body'', ''World'')] \<and>
   changedAttributes changedSnapshot exampleHeap = (2, changedCopyHeap) \<and>
   changedContent exampleHeap 0 = [(''title'', [''Hi'', ''Hello''])] \<and>
   changedContent changedCopyHeap 2 = [(''title'', [''Hi'', ''Hello''])] \<and>
   changedContent mutatedChangedHeap 2 = [(''body'', [''changed''])] \<and>
   fst (changedAttributes changedSnapshot mutatedChangedHeap) = 4 \<and>
   changedContent (snd (changedAttributes changedSnapshot mutatedChangedHeap)) 4 =
     [(''title'', [''Hi'', ''Hello''])] \<and>
   changedContent (snd (changedAttributes changedSnapshot mutatedChangedHeap)) 0 =
     [(''title'', [''Hi'', ''Hello''])]"
proof -
  let ?snap1 = "changedSnapshot\<lparr>attributesRef := Some 2\<rparr>"
  let ?second = "attributes exampleSource ?snap1 mutatedHeap"
  let ?csecond = "changedAttributes changedSnapshot mutatedChangedHeap"
  have w: "case attributesRef changedSnapshot of Some a \<Rightarrow> a < nextObject exampleHeap | None \<Rightarrow> True"
    by (simp add: heap_example_defs)
  have mu: "\<forall>x. x \<noteq> 3 \<longrightarrow> attributeDicts mutatedHeap x = attributeDicts copiedHeap x"
    by (simp add: mutatedHeap_def)
  have nx: "nextObject copiedHeap \<le> nextObject mutatedHeap"
    by (simp add: mutatedHeap_def)
  have m3: "attributeDicts mutatedHeap 3 = [(''title'', ''changed'')]"
    by (simp add: mutatedHeap_def)
  have s4: "fst ?second = 4"
    using example_copied by (simp add: attribute_defs mutatedHeap_def)
  have se: "?second = (4, fst (snd ?second), snd (snd ?second))"
    using s4 by (simp add: prod_eq_iff)
  have a2: "attributesRef ?snap1 = Some 2" by simp
  from attribute_copies_fresh [where snap=changedSnapshot and h=exampleHeap and src=exampleSource
      and r=3 and ?snap1.0="?snap1" and ?h1.0=copiedHeap and g=mutatedHeap and src'=exampleSource
      and r'=4 and ?snap2.0="fst (snd ?second)" and g'="snd (snd ?second)"]
    w example_attributes mu nx se a2
  have A: "attributeDicts (snd (snd ?second)) 2 = attributeDicts copiedHeap 2 \<and>
           attributeDicts (snd (snd ?second)) 4 = attributeDicts copiedHeap 3"
    by auto
  have c0: "changedAttributesRef changedSnapshot = Some 0" by (simp add: heap_example_defs)
  have c1: "0 < nextObject exampleHeap" by (simp add: heap_example_defs)
  have c2: "distinct (map fst (changedDicts exampleHeap 0))" by (simp add: heap_example_defs)
  have c3: "\<forall>(k, p) \<in> set (changedDicts exampleHeap 0). p < nextObject exampleHeap"
    by (simp add: heap_example_defs)
  have c4: "\<forall>x < nextObject exampleHeap. changedDicts mutatedChangedHeap x = changedDicts changedCopyHeap x \<and>
              valuePairs mutatedChangedHeap x = valuePairs changedCopyHeap x"
    by (simp add: mutatedChangedHeap_def exampleHeap_def)
  have c5: "nextObject exampleHeap \<le> nextObject mutatedChangedHeap"
    using example_changed by (simp add: mutatedChangedHeap_def exampleHeap_def)
  have c6: "fst ?csecond = 4"
    using example_changed by (simp add: changedAttributes_def mutatedChangedHeap_def Let_def split: option.splits)
  have c7: "?csecond = (4, snd ?csecond)" using c6 by (simp add: prod_eq_iff)
  have e0: "changedContent exampleHeap 0 = [(''title'', [''Hi'', ''Hello''])]"
    by (simp add: changedContent_def exampleHeap_def)
  have e1: "changedContent mutatedChangedHeap 2 = [(''body'', [''changed''])]"
    by (simp add: changedContent_def mutatedChangedHeap_def)
  from attribute_copies_fresh [where snap=changedSnapshot and h=exampleHeap and c=0 and q=2
      and ?k1.0=changedCopyHeap and m=mutatedChangedHeap and q'=4 and ?k2.0="snd ?csecond"]
    c0 c1 c2 c3 c4 c5 c7 example_changed
  have B: "changedContent changedCopyHeap 2 = changedContent exampleHeap 0 \<and>
           changedContent (snd ?csecond) 4 = changedContent exampleHeap 0 \<and>
           changedContent (snd ?csecond) 0 = changedContent exampleHeap 0"
    by auto
  from A B example_attributes example_copied example_changed m3 s4 c6 e0 e1 show ?thesis
    by simp
qed


section \<open>Properties of fetch coordination\<close>





end
